theory Spec2Isabelle
  imports Complex_Main
begin

section \<open>Points and proximity (convert\_drawsegment\_list\_to\_polygon.cpp, lines 56-93)\<close>

text \<open>
  A \<open>wxPoint\<close> is a pair of integer coordinates \<open>(x, y)\<close>. Coordinates are modelled as
  unbounded integers; the model agrees with the C++ code as long as the differences taken
  in \<open>close_ness\<close> fit in a 32-bit \<open>int\<close> (signed overflow has no defined behaviour in C++).
\<close>

type_synonym wxPoint = "int \<times> int"

definition INT_MAX :: nat where
  "INT_MAX = 2147483647"

definition close_ness :: "wxPoint \<Rightarrow> wxPoint \<Rightarrow> nat" where
  "close_ness aLeft aRight =
     nat (\<bar>fst aLeft - fst aRight\<bar> + \<bar>snd aLeft - snd aRight\<bar>)"

definition close_enough :: "wxPoint \<Rightarrow> wxPoint \<Rightarrow> nat \<Rightarrow> bool" where
  "close_enough aLeft aRight aLimit \<longleftrightarrow> close_ness aLeft aRight \<le> aLimit"

definition close_st :: "wxPoint \<Rightarrow> wxPoint \<Rightarrow> wxPoint \<Rightarrow> bool" where
  "close_st aReference aFirst aSecond \<longleftrightarrow>
     close_ness aReference aFirst \<le> close_ness aReference aSecond"


section \<open>Graphic primitives\<close>

text \<open>
  The classes \<open>DRAWSEGMENT\<close> and \<open>MODULE\<close> are not part of the sources at hand; the
  conversion only reads them through getters. A primitive is therefore the record of the
  values its getters return during one call. \<open>GetBezierPoints\<close> is the list left by
  \<open>RebuildBezierToSegmentsPointsList (GetWidth ())\<close>, which the start-point scan calls on
  every curve before any walk reads it. \<open>GetPolyShape\<close> is the vertex sequence that
  iterating over the stored polygon yields.
\<close>

datatype STROKE_T = S_SEGMENT | S_RECT | S_ARC | S_CIRCLE | S_POLYGON | S_CURVE | S_LAST

datatype PCB_LAYER_ID = Edge_Cuts | Other_Layer nat

record MODULE =
  GetOrientation :: real
  GetModulePosition :: wxPoint

record DRAWSEGMENT =
  GetShape :: STROKE_T
  GetLayer :: PCB_LAYER_ID
  GetStart :: wxPoint
  GetEnd :: wxPoint
  GetArcStart :: wxPoint
  GetArcEnd :: wxPoint
  GetCenter :: wxPoint
  GetRadius :: int
  GetAngle :: real
  GetBezierPoints :: "wxPoint list"
  GetRectCorners :: "wxPoint list"
  GetPolyShape :: "wxPoint list"
  GetParentModule :: "MODULE option"
  GetPosition :: wxPoint


section \<open>findPoint (lines 105-171)\<close>

text \<open>
  The two points of a primitive that \<open>findPoint\<close> looks at: the arc end points for an arc,
  start and end for every other shape (the \<open>default\<close> branch of the switch).
\<close>

definition search_points :: "DRAWSEGMENT \<Rightarrow> wxPoint \<times> wxPoint" where
  "search_points graphic =
     (case GetShape graphic of
        S_ARC \<Rightarrow> (GetArcStart graphic, GetArcEnd graphic)
      | _ \<Rightarrow> (GetStart graphic, GetEnd graphic))"

text \<open>
  The \<open>for\<close> loop of \<open>findPoint\<close> over the elements from index \<open>i\<close> on, with the loop
  variables \<open>min_d\<close> and \<open>ndx_min\<close>. \<open>Inl i\<close> is the early return at an exact match at
  index \<open>i\<close>; \<open>Inr (min_d, ndx_min)\<close> is the state when the loop runs to its end.
\<close>

fun findPoint_loop ::
  "wxPoint \<Rightarrow> DRAWSEGMENT list \<Rightarrow> nat \<Rightarrow> nat \<Rightarrow> nat \<Rightarrow> nat + nat \<times> nat" where
  "findPoint_loop aPoint [] i min_d ndx_min = Inr (min_d, ndx_min)"
| "findPoint_loop aPoint (graphic # rest) i min_d ndx_min =
     (let (p1, p2) = search_points graphic in
      if aPoint = p1 \<or> aPoint = p2 then Inl i
      else
        let d1 = close_ness aPoint p1;
            (min_d1, ndx_min1) = (if d1 < min_d then (d1, i) else (min_d, ndx_min));
            d2 = close_ness aPoint p2;
            (min_d2, ndx_min2) = (if d2 < min_d1 then (d2, i) else (min_d1, ndx_min1))
        in findPoint_loop aPoint rest (Suc i) min_d2 ndx_min2)"

definition erase_at :: "nat \<Rightarrow> 'a list \<Rightarrow> 'a list" where
  "erase_at i xs = take i xs @ drop (Suc i) xs"

text \<open>
  The result is \<open>None\<close> when the code indexes the vector out of range (no defined
  behaviour); otherwise it is the returned pointer (\<open>None\<close> for \<open>NULL\<close>) together with the
  list as the call leaves it.
\<close>

definition findPoint ::
  "wxPoint \<Rightarrow> DRAWSEGMENT list \<Rightarrow> nat \<Rightarrow> (DRAWSEGMENT option \<times> DRAWSEGMENT list) option" where
  "findPoint aPoint aList aLimit =
     (case findPoint_loop aPoint aList 0 INT_MAX 0 of
        Inl i \<Rightarrow> Some (Some (aList ! i), erase_at i aList)
      | Inr (min_d, ndx_min) \<Rightarrow>
          if min_d \<le> aLimit then
            (if ndx_min < length aList
             then Some (Some (aList ! ndx_min), erase_at ndx_min aList)
             else None)
          else Some (None, aList))"


section \<open>The output polygon set\<close>

text \<open>
  Modelled from the spec: the class \<open>SHAPE_POLY_SET\<close> (with \<open>SHAPE_LINE_CHAIN\<close> and \<open>SEG\<close>)
  is not part of the sources at hand. A polygon set is a sequence of polygons; a polygon is
  its outer outline followed by its holes; a contour is an ordered point sequence that is
  implicitly closed unless it is marked open. \<open>Append\<close> adds one point at the end of a
  contour of the last polygon (the outline for a negative hole index), \<open>NewOutline\<close> adds a
  polygon with an empty closed outline, \<open>NewHole\<close> adds an empty closed hole to the last
  polygon and returns its index. An index that is out of range is \<open>None\<close>.
\<close>

record SHAPE_LINE_CHAIN =
  CPoints :: "wxPoint list"
  IsClosed :: bool

type_synonym POLYGON = "SHAPE_LINE_CHAIN list"

type_synonym SHAPE_POLY_SET = "POLYGON list"

definition empty_path :: SHAPE_LINE_CHAIN where
  "empty_path = \<lparr>CPoints = [], IsClosed = True\<rparr>"

definition NewOutline :: "SHAPE_POLY_SET \<Rightarrow> SHAPE_POLY_SET" where
  "NewOutline ps = ps @ [[empty_path]]"

definition NewHole :: "SHAPE_POLY_SET \<Rightarrow> (int \<times> SHAPE_POLY_SET) option" where
  "NewHole ps =
     (if ps = [] then None
      else Some (int (length (last ps)) - 1, butlast ps @ [last ps @ [empty_path]]))"

definition contour_index :: "int \<Rightarrow> nat" where
  "contour_index aHole = (if aHole < 0 then 0 else nat (aHole + 1))"

definition Append :: "wxPoint \<Rightarrow> int \<Rightarrow> SHAPE_POLY_SET \<Rightarrow> SHAPE_POLY_SET option" where
  "Append pt aHole ps =
     (if ps = [] then None
      else
        let poly = last ps; idx = contour_index aHole in
        if idx < length poly
        then Some (butlast ps @
                   [poly[idx := (poly ! idx)\<lparr>CPoints := CPoints (poly ! idx) @ [pt]\<rparr>]])
        else None)"

fun Append_all :: "wxPoint list \<Rightarrow> int \<Rightarrow> SHAPE_POLY_SET \<Rightarrow> SHAPE_POLY_SET option" where
  "Append_all [] aHole ps = Some ps"
| "Append_all (pt # pts) aHole ps =
     (case Append pt aHole ps of
        None \<Rightarrow> None
      | Some ps' \<Rightarrow> Append_all pts aHole ps')"

text \<open>\<open>aPolygons.Hole (aOutline, aHole).SetClosed (aClosed)\<close>.\<close>

definition Hole_SetClosed ::
  "nat \<Rightarrow> int \<Rightarrow> bool \<Rightarrow> SHAPE_POLY_SET \<Rightarrow> SHAPE_POLY_SET option" where
  "Hole_SetClosed aOutline aHole aClosed ps =
     (if aOutline < length ps \<and> 0 \<le> aHole + 1 \<and> nat (aHole + 1) < length (ps ! aOutline)
      then Some (ps[aOutline := (ps ! aOutline)
                   [nat (aHole + 1) := (ps ! aOutline ! nat (aHole + 1))\<lparr>IsClosed := aClosed\<rparr>]])
      else None)"

definition OutlineCount :: "SHAPE_POLY_SET \<Rightarrow> nat" where
  "OutlineCount ps = length ps"

type_synonym SEG = "wxPoint \<times> wxPoint"

text \<open>
  The segments of a contour: consecutive points, and the closing segment from the last point
  back to the first one when the contour is closed.
\<close>

definition chain_segments :: "SHAPE_LINE_CHAIN \<Rightarrow> SEG list" where
  "chain_segments c =
     (let pts = CPoints c in
      if pts = [] then []
      else zip pts (tl pts) @ (if IsClosed c then [(last pts, hd pts)] else []))"

definition IterateSegmentsWithHoles :: "SHAPE_POLY_SET \<Rightarrow> SEG list" where
  "IterateSegmentsWithHoles ps = concat (map chain_segments (concat ps))"


section \<open>Helpers that are outside the sources\<close>

text \<open>Modelled from the spec: a bounding rectangle, given by its origin and its size.\<close>

record EDA_RECT =
  GetOrigin :: wxPoint
  GetSize :: wxPoint

definition GetWidth :: "EDA_RECT \<Rightarrow> int" where
  "GetWidth r = fst (GetSize r)"

definition GetHeight :: "EDA_RECT \<Rightarrow> int" where
  "GetHeight r = snd (GetSize r)"

definition GetRectEnd :: "EDA_RECT \<Rightarrow> wxPoint" where
  "GetRectEnd r = (fst (GetOrigin r) + fst (GetSize r), snd (GetOrigin r) + snd (GetSize r))"

text \<open>
  The floating-point and geometry helpers that the conversion calls are not part of the
  sources at hand; they are parameters of the model, so that every theorem below holds for
  whatever they compute.
  \<^item> \<open>GetArcToSegmentCount g radius aTolerance a\<close> is the call with third argument \<open>a\<close>.
  \<^item> \<open>RotateArcPoint g pstart pcenter angle step steps\<close> is the point \<open>nextPt\<close> after
    \<open>rotation = (angle * step) / steps; nextPt = pstart; RotatePoint (&nextPt, pcenter, rotation)\<close>.
  \<^item> \<open>RotateCirclePoint g start center angle step steps\<close> is the same for the overload
    \<open>RotatePoint (&nextPt.x, &nextPt.y, center.x, center.y, rotation)\<close>.
  \<^item> \<open>RotatePoint g pt orientation\<close> is \<open>pt\<close> after \<open>RotatePoint (pt, orientation)\<close>.
  \<^item> \<open>TransformCircleToPolygon g center radius aTolerance\<close> is the point ring that the
    function of this name appends to the new outline it opens.
  \<^item> \<open>SEG_Intersect g seg1 seg2\<close> is \<open>seg1.Intersect (seg2, true)\<close>.
  \<^item> \<open>Inflate g r d\<close> is the rectangle \<open>r\<close> after \<open>r.Inflate (d)\<close>, and \<open>Millimeter2iu g\<close>
    the value of \<open>Millimeter2iu (1.0)\<close>.
\<close>

record GEOMETRY =
  GetArcToSegmentCount :: "int \<Rightarrow> nat \<Rightarrow> real \<Rightarrow> int"
  RotateArcPoint :: "wxPoint \<Rightarrow> wxPoint \<Rightarrow> real \<Rightarrow> int \<Rightarrow> int \<Rightarrow> wxPoint"
  RotateCirclePoint :: "wxPoint \<Rightarrow> wxPoint \<Rightarrow> real \<Rightarrow> int \<Rightarrow> int \<Rightarrow> wxPoint"
  RotatePoint :: "wxPoint \<Rightarrow> real \<Rightarrow> wxPoint"
  TransformCircleToPolygon :: "wxPoint \<Rightarrow> int \<Rightarrow> nat \<Rightarrow> wxPoint list"
  SEG_Intersect :: "SEG \<Rightarrow> SEG \<Rightarrow> wxPoint option"
  Inflate :: "EDA_RECT \<Rightarrow> int \<Rightarrow> EDA_RECT"
  Millimeter2iu :: int

text \<open>The points of the loop \<open>for (step = 1; step <= steps; ++step)\<close> over an arc.\<close>

definition arc_points :: "GEOMETRY \<Rightarrow> wxPoint \<Rightarrow> wxPoint \<Rightarrow> real \<Rightarrow> int \<Rightarrow> wxPoint list" where
  "arc_points g pstart pcenter angle steps =
     map (\<lambda>step. RotateArcPoint g pstart pcenter angle step steps) [1..steps]"

text \<open>
  The placement of a polygon vertex: rotated by the orientation of the module, then moved
  by its position; no rotation and no offset without a module.
\<close>

definition place :: "GEOMETRY \<Rightarrow> MODULE option \<Rightarrow> wxPoint \<Rightarrow> wxPoint" where
  "place g parent pt =
     (let orientation = (case parent of Some m \<Rightarrow> GetOrientation m | None \<Rightarrow> 0);
          offset = (case parent of Some m \<Rightarrow> GetModulePosition m | None \<Rightarrow> (0, 0));
          r = RotatePoint g pt orientation
      in (fst r + fst offset, snd r + snd offset))"


section \<open>Start-point selection (lines 204-315)\<close>

definition take_min :: "nat \<Rightarrow> wxPoint \<times> nat \<Rightarrow> wxPoint \<Rightarrow> wxPoint \<times> nat" where
  "take_min i s pt = (if fst pt < fst (fst s) then (pt, i) else s)"

text \<open>
  The points that the scan compares with \<open>xmin\<close> for one primitive, in the order of the
  comparisons. For a polygon the module is the parent of \<open>aSegList[0]\<close> (line 292).
\<close>

definition xmin_points ::
  "GEOMETRY \<Rightarrow> nat \<Rightarrow> DRAWSEGMENT list \<Rightarrow> DRAWSEGMENT \<Rightarrow> wxPoint list" where
  "xmin_points g aTolerance aSegList graphic =
     (case GetShape graphic of
        S_RECT \<Rightarrow> [GetStart graphic, GetEnd graphic]
      | S_SEGMENT \<Rightarrow> [GetStart graphic, GetEnd graphic]
      | S_ARC \<Rightarrow>
          (let pstart = GetArcStart graphic;
               center = GetCenter graphic;
               angle = - GetAngle graphic;
               radius = GetRadius graphic;
               steps = GetArcToSegmentCount g radius aTolerance (angle / 10)
           in arc_points g pstart center angle steps)
      | S_CIRCLE \<Rightarrow>
          (let pt = (fst (GetCenter graphic) - GetRadius graphic, snd (GetCenter graphic))
           in if GetRadius graphic > 0 then [pt] else [])
      | S_CURVE \<Rightarrow> GetBezierPoints graphic
      | S_POLYGON \<Rightarrow> map (place g (GetParentModule (aSegList ! 0))) (GetPolyShape graphic)
      | S_LAST \<Rightarrow> [])"

fun find_xmin_loop ::
  "GEOMETRY \<Rightarrow> nat \<Rightarrow> DRAWSEGMENT list \<Rightarrow> DRAWSEGMENT list \<Rightarrow> nat \<Rightarrow> wxPoint \<times> nat
     \<Rightarrow> wxPoint \<times> nat" where
  "find_xmin_loop g aTolerance aSegList [] i s = s"
| "find_xmin_loop g aTolerance aSegList (graphic # rest) i s =
     find_xmin_loop g aTolerance aSegList rest (Suc i)
       (foldl (take_min i) s (xmin_points g aTolerance aSegList graphic))"

definition find_xmin :: "GEOMETRY \<Rightarrow> nat \<Rightarrow> DRAWSEGMENT list \<Rightarrow> wxPoint \<times> nat" where
  "find_xmin g aTolerance aSegList =
     find_xmin_loop g aTolerance aSegList aSegList 0 ((int INT_MAX, 0), 0)"


section \<open>Chain walking (lines 371-508 and 576-717)\<close>

datatype ERRMSG =
  Unsupported_DRAWSEGMENT_type STROKE_T
| Unable_to_find_edge wxPoint
| No_edges_found

text \<open>
  The state that \<open>ConvertOutlineToPolygon\<close> changes: its reference parameters
  \<open>aPolygons\<close>, \<open>aErrorLocation\<close> (\<open>None\<close> as long as nothing was written; the pointer is
  taken to be non-null) and \<open>aErrorText\<close> (the messages appended so far), and its local
  variable \<open>polygonComplete\<close>. \<open>walkIters\<close> and \<open>holeIters\<close> are ghost counters that are
  not in the source: the number of iterations of the \<open>for (;;)\<close> loops and of the
  \<open>while (segList.size ())\<close> loop executed so far.
\<close>

record CONV_STATE =
  aPolygons :: SHAPE_POLY_SET
  aErrorLocation :: "wxPoint option"
  aErrorText :: "ERRMSG list"
  polygonComplete :: bool
  walkIters :: nat
  holeIters :: nat

text \<open>
  The \<open>switch\<close> at the head of the \<open>for (;;)\<close> body: the points appended for the primitive
  \<open>graphic\<close> and the new value of \<open>prevPt\<close>, or \<open>None\<close> in the \<open>default\<close> branch. An arc with no
  steps leaves \<open>prevPt\<close> at the default-constructed \<open>wxPoint\<close>, which is \<open>(0, 0)\<close>. The
  \<open>wxASSERT\<close> of the arc branch has no effect on the result.
\<close>

definition chain_step ::
  "GEOMETRY \<Rightarrow> nat \<Rightarrow> DRAWSEGMENT \<Rightarrow> wxPoint \<Rightarrow> (wxPoint list \<times> wxPoint) option" where
  "chain_step g aTolerance graphic prevPt =
     (case GetShape graphic of
        S_SEGMENT \<Rightarrow>
          (let nextPt = (if close_st prevPt (GetStart graphic) (GetEnd graphic)
                         then GetEnd graphic else GetStart graphic)
           in Some ([nextPt], nextPt))
      | S_ARC \<Rightarrow>
          (let pstart = GetArcStart graphic;
               pend = GetArcEnd graphic;
               pcenter = GetCenter graphic;
               angle = - GetAngle graphic;
               radius = GetRadius graphic;
               steps = GetArcToSegmentCount g radius aTolerance (angle / 10);
               swap = \<not> close_enough prevPt pstart aTolerance;
               angle' = (if swap then - angle else angle);
               pstart' = (if swap then pend else pstart);
               pts = arc_points g pstart' pcenter angle' steps
           in Some (pts, if pts = [] then (0, 0) else last pts))
      | S_CURVE \<Rightarrow>
          (let reverse = \<not> close_st prevPt (GetStart graphic) (GetEnd graphic);
               nextPt = (if reverse then GetStart graphic else GetEnd graphic)
           in Some (if reverse then rev (GetBezierPoints graphic)
                    else GetBezierPoints graphic, nextPt))
      | _ \<Rightarrow> None)"

lemma findPoint_loop_Inl_bound:
  "findPoint_loop aPoint xs i min_d ndx_min = Inl k \<Longrightarrow> i \<le> k \<and> k < i + length xs"
proof (induction xs arbitrary: i min_d ndx_min)
  case Nil
  then show ?case by simp
next
  case (Cons graphic rest)
  show ?case
  proof (cases "aPoint = fst (search_points graphic) \<or> aPoint = snd (search_points graphic)")
    case True
    with Cons.prems show ?thesis by (simp add: case_prod_beta)
  next
    case False
    with Cons.prems obtain m n where "findPoint_loop aPoint rest (Suc i) m n = Inl k"
      by (auto simp: case_prod_beta Let_def split: if_splits)
    from Cons.IH [OF this] show ?thesis by simp
  qed
qed

lemma length_erase_at: "i < length xs \<Longrightarrow> Suc (length (erase_at i xs)) = length xs"
  by (simp add: erase_at_def)

lemma findPoint_removes_one:
  assumes "findPoint aPoint aList aLimit = Some (Some graphic, aList')"
  shows "Suc (length aList') = length aList"
proof (cases "findPoint_loop aPoint aList 0 INT_MAX 0")
  case (Inl k)
  then have "k < length aList"
    using findPoint_loop_Inl_bound [of aPoint aList 0 INT_MAX 0 k] by simp
  with assms Inl show ?thesis
    by (auto simp: findPoint_def length_erase_at)
next
  case (Inr a)
  with assms show ?thesis
    by (auto simp: findPoint_def length_erase_at split: prod.splits if_splits)
qed

lemma findPoint_NULL_unchanged:
  "findPoint aPoint aList aLimit = Some (None, aList') \<Longrightarrow> aList' = aList"
  by (auto simp: findPoint_def split: sum.splits prod.splits if_splits)

datatype WALK_EXIT = Loop_break | Return_false

definition target_hole :: "(int \<times> int) option \<Rightarrow> int" where
  "target_hole target = (case target of None \<Rightarrow> - 1 | Some (hole, holeNum) \<Rightarrow> hole)"

text \<open>
  The \<open>for (;;)\<close> loop. The source has it twice, for the outline (lines 371-508) and for a
  hole (lines 576-717); the two bodies differ in the contour that \<open>Append\<close> writes to and in
  the call of \<open>SetClosed\<close> at line 712. \<open>target\<close> is \<open>None\<close> for the outline loop and
  \<open>Some (hole, holeNum)\<close> for the hole loop. The result is how the loop was left
  (\<open>break\<close> or \<open>return false\<close>), \<open>segList\<close> and the state; \<open>None\<close> when an index was out of range.
\<close>

function walk ::
  "GEOMETRY \<Rightarrow> nat \<Rightarrow> (int \<times> int) option \<Rightarrow> wxPoint \<Rightarrow> DRAWSEGMENT \<Rightarrow> wxPoint
     \<Rightarrow> DRAWSEGMENT list \<Rightarrow> CONV_STATE
     \<Rightarrow> (WALK_EXIT \<times> DRAWSEGMENT list \<times> CONV_STATE) option" where
  "walk g aTolerance target startPt graphic prevPt segList st =
     (case chain_step g aTolerance graphic prevPt of
        None \<Rightarrow>
          Some (Return_false, segList,
                st\<lparr>aErrorText := aErrorText st @ [Unsupported_DRAWSEGMENT_type (GetShape graphic)],
                   aErrorLocation := Some (GetPosition graphic),
                   walkIters := Suc (walkIters st)\<rparr>)
      | Some (pts, nextPt) \<Rightarrow>
          (case Append_all pts (target_hole target) (aPolygons st) of
             None \<Rightarrow> None
           | Some ps \<Rightarrow>
               (let st1 = st\<lparr>aPolygons := ps, walkIters := Suc (walkIters st)\<rparr> in
                case findPoint nextPt segList aTolerance of
                  None \<Rightarrow> None
                | Some (None, segList') \<Rightarrow>
                    if close_enough startPt nextPt aTolerance
                    then Some (Loop_break, segList', st1)
                    else
                      (let st2 = st1\<lparr>aErrorText := aErrorText st1 @ [Unable_to_find_edge nextPt],
                                     aErrorLocation := Some nextPt\<rparr> in
                       case target of
                         None \<Rightarrow> Some (Loop_break, segList', st2\<lparr>polygonComplete := False\<rparr>)
                       | Some (hole, holeNum) \<Rightarrow>
                           (case Hole_SetClosed 0 holeNum False (aPolygons st2) of
                              None \<Rightarrow> None
                            | Some ps' \<Rightarrow>
                                Some (Loop_break, segList',
                                      st2\<lparr>aPolygons := ps', polygonComplete := False\<rparr>)))
                | Some (Some graphic', segList') \<Rightarrow>
                    walk g aTolerance target startPt graphic' nextPt segList' st1)))"
  by pat_completeness auto
termination
proof (relation "measure (\<lambda>(g, aTolerance, target, startPt, graphic, prevPt, segList, st).
                            length segList)")
  show "wf (measure (\<lambda>(g, aTolerance, target, startPt, graphic, prevPt, segList, st).
                       length segList))"
    by simp
next
  fix g :: GEOMETRY and aTolerance :: nat and target :: "(int \<times> int) option"
    and startPt :: wxPoint and graphic :: DRAWSEGMENT and prevPt :: wxPoint
    and segList :: "DRAWSEGMENT list" and st :: CONV_STATE
    and x2 x y ps st1 x2a aa ba graphic'
  assume "findPoint y segList aTolerance = Some x2a" and "(aa, ba) = x2a" and "aa = Some graphic'"
  then have "findPoint y segList aTolerance = Some (Some graphic', ba)"
    by simp
  from findPoint_removes_one [OF this]
  show "((g, aTolerance, target, startPt, graphic', y, ba, st1),
         (g, aTolerance, target, startPt, graphic, prevPt, segList, st))
        \<in> measure (\<lambda>(g, aTolerance, target, startPt, graphic, prevPt, segList, st).
                      length segList)"
    by simp
qed

declare walk.simps [simp del]

text \<open>Induction along the loop: each further iteration works on a shorter list.\<close>

lemma walk_induct [case_names step]:
  assumes "\<And>graphic prevPt segList st.
     (\<And>pts nextPt ps graphic' segList'.
        chain_step g aTolerance graphic prevPt = Some (pts, nextPt) \<Longrightarrow>
        Append_all pts (target_hole target) (aPolygons st) = Some ps \<Longrightarrow>
        findPoint nextPt segList aTolerance = Some (Some graphic', segList') \<Longrightarrow>
        P graphic' nextPt segList' (st\<lparr>aPolygons := ps, walkIters := Suc (walkIters st)\<rparr>))
     \<Longrightarrow> P graphic prevPt segList st"
  shows "P graphic prevPt segList st"
proof (induction "length segList" arbitrary: graphic prevPt segList st rule: less_induct)
  case less
  show ?case
    apply (rule assms)
    apply (rule less)
    apply (drule findPoint_removes_one)
    apply simp
    done
qed

lemma walk_unsupported:
  "chain_step g aTolerance graphic prevPt = None \<Longrightarrow>
   walk g aTolerance target startPt graphic prevPt segList st =
     Some (Return_false, segList,
           st\<lparr>aErrorText := aErrorText st @ [Unsupported_DRAWSEGMENT_type (GetShape graphic)],
              aErrorLocation := Some (GetPosition graphic),
              walkIters := Suc (walkIters st)\<rparr>)"
  by (simp add: walk.simps)

lemma walk_found:
  "chain_step g aTolerance graphic prevPt = Some (pts, nextPt) \<Longrightarrow>
   Append_all pts (target_hole target) (aPolygons st) = Some ps \<Longrightarrow>
   findPoint nextPt segList aTolerance = Some (Some graphic', segList') \<Longrightarrow>
   walk g aTolerance target startPt graphic prevPt segList st =
     walk g aTolerance target startPt graphic' nextPt segList'
       (st\<lparr>aPolygons := ps, walkIters := Suc (walkIters st)\<rparr>)"
  by (simp add: walk.simps [of g aTolerance target startPt graphic prevPt segList st])

lemma walk_closed:
  "chain_step g aTolerance graphic prevPt = Some (pts, nextPt) \<Longrightarrow>
   Append_all pts (target_hole target) (aPolygons st) = Some ps \<Longrightarrow>
   findPoint nextPt segList aTolerance = Some (None, segList') \<Longrightarrow>
   close_enough startPt nextPt aTolerance \<Longrightarrow>
   walk g aTolerance target startPt graphic prevPt segList st =
     Some (Loop_break, segList', st\<lparr>aPolygons := ps, walkIters := Suc (walkIters st)\<rparr>)"
  by (simp add: walk.simps [of g aTolerance target startPt graphic prevPt segList st])

lemma walk_unclosed_outline:
  "chain_step g aTolerance graphic prevPt = Some (pts, nextPt) \<Longrightarrow>
   Append_all pts (- 1) (aPolygons st) = Some ps \<Longrightarrow>
   findPoint nextPt segList aTolerance = Some (None, segList') \<Longrightarrow>
   \<not> close_enough startPt nextPt aTolerance \<Longrightarrow>
   walk g aTolerance None startPt graphic prevPt segList st =
     Some (Loop_break, segList',
           st\<lparr>aPolygons := ps, walkIters := Suc (walkIters st),
              aErrorText := aErrorText st @ [Unable_to_find_edge nextPt],
              aErrorLocation := Some nextPt, polygonComplete := False\<rparr>)"
  by (simp add: walk.simps [of g aTolerance None startPt graphic prevPt segList st] target_hole_def)

lemma walk_unclosed_hole:
  "chain_step g aTolerance graphic prevPt = Some (pts, nextPt) \<Longrightarrow>
   Append_all pts hole (aPolygons st) = Some ps \<Longrightarrow>
   findPoint nextPt segList aTolerance = Some (None, segList') \<Longrightarrow>
   \<not> close_enough startPt nextPt aTolerance \<Longrightarrow>
   Hole_SetClosed 0 holeNum False ps = Some ps' \<Longrightarrow>
   walk g aTolerance (Some (hole, holeNum)) startPt graphic prevPt segList st =
     Some (Loop_break, segList',
           st\<lparr>aPolygons := ps', walkIters := Suc (walkIters st),
              aErrorText := aErrorText st @ [Unable_to_find_edge nextPt],
              aErrorLocation := Some nextPt, polygonComplete := False\<rparr>)"
  by (simp add: walk.simps [of g aTolerance "Some (hole, holeNum)" startPt graphic prevPt segList st]
      target_hole_def)

text \<open>Every way in which a walk returns.\<close>

lemma walk_cases:
  assumes "walk g aTolerance target startPt graphic prevPt segList st = Some (e, segList', st')"
  obtains
    (unsupported) "chain_step g aTolerance graphic prevPt = None"
  | (found) pts nextPt ps graphic' l where
      "chain_step g aTolerance graphic prevPt = Some (pts, nextPt)"
      "Append_all pts (target_hole target) (aPolygons st) = Some ps"
      "findPoint nextPt segList aTolerance = Some (Some graphic', l)"
      "walk g aTolerance target startPt graphic' nextPt l
         (st\<lparr>aPolygons := ps, walkIters := Suc (walkIters st)\<rparr>) = Some (e, segList', st')"
  | (exhausted) pts nextPt ps where
      "chain_step g aTolerance graphic prevPt = Some (pts, nextPt)"
      "Append_all pts (target_hole target) (aPolygons st) = Some ps"
      "findPoint nextPt segList aTolerance = Some (None, segList)"
proof (cases "chain_step g aTolerance graphic prevPt")
  case None
  then show ?thesis by (rule unsupported)
next
  case (Some a)
  obtain pts nextPt where a: "chain_step g aTolerance graphic prevPt = Some (pts, nextPt)"
    using Some by (cases a) simp
  from assms a obtain ps where ps: "Append_all pts (target_hole target) (aPolygons st) = Some ps"
    by (auto simp: walk.simps [of g aTolerance target startPt graphic prevPt segList st]
        split: option.splits)
  from assms a ps obtain r where r: "findPoint nextPt segList aTolerance = Some r"
    by (auto simp: walk.simps [of g aTolerance target startPt graphic prevPt segList st] Let_def
        split: option.splits)
  obtain gr l where gl: "r = (gr, l)" by (cases r)
  show ?thesis
  proof (cases gr)
    case None
    with r gl have "findPoint nextPt segList aTolerance = Some (None, l)" by simp
    moreover from this have "l = segList" by (rule findPoint_NULL_unchanged)
    ultimately show ?thesis using a ps by (auto intro: exhausted)
  next
    case (Some graphic')
    with r gl have fp: "findPoint nextPt segList aTolerance = Some (Some graphic', l)" by simp
    from assms have "walk g aTolerance target startPt graphic' nextPt l
         (st\<lparr>aPolygons := ps, walkIters := Suc (walkIters st)\<rparr>) = Some (e, segList', st')"
      by (simp add: walk_found [OF a ps fp])
    with a ps fp show ?thesis by (rule found)
  qed
qed

lemma walk_length:
  "walk g aTolerance target startPt graphic prevPt segList st = Some (e, segList', st')
   \<Longrightarrow> length segList' \<le> length segList"
proof (induction graphic prevPt segList st rule: walk_induct [where g = g and aTolerance = aTolerance and target = target])
  case (step graphic prevPt segList st)
  from step.prems show ?case
  proof (cases rule: walk_cases)
    case unsupported
    with step.prems show ?thesis by (simp add: walk_unsupported)
  next
    case (found pts nextPt ps graphic' l)
    from step.IH [OF found] findPoint_removes_one [OF found(3)] show ?thesis by simp
  next
    case (exhausted pts nextPt ps)
    with step.prems show ?thesis
      by (auto simp: walk.simps [of g aTolerance target startPt graphic prevPt segList st] Let_def
          split: if_splits option.splits)
  qed
qed


section \<open>Hole accumulation (lines 511-719)\<close>

text \<open>The point ring of a circle that becomes a hole (lines 541-557).\<close>

definition hole_circle_points :: "GEOMETRY \<Rightarrow> nat \<Rightarrow> DRAWSEGMENT \<Rightarrow> wxPoint list" where
  "hole_circle_points g aTolerance graphic =
     (let center = GetCenter graphic;
          angle = 3600;
          radius = GetRadius graphic;
          steps = GetArcToSegmentCount g radius aTolerance 360;
          start = (fst center + radius, snd center)
      in map (\<lambda>step. RotateCirclePoint g start center angle step steps) [0..steps - 1])"

text \<open>
  The \<open>while (segList.size ())\<close> loop. The result is \<open>False\<close> with the state when a walk left
  the function by \<open>return false\<close>, \<open>True\<close> with the state when the loop ran until the list was
  empty, and \<open>None\<close> when an index was out of range.
\<close>

function hole_loop ::
  "GEOMETRY \<Rightarrow> nat \<Rightarrow> int \<Rightarrow> DRAWSEGMENT list \<Rightarrow> CONV_STATE \<Rightarrow> (bool \<times> CONV_STATE) option" where
  "hole_loop g aTolerance holeNum segList st =
     (case segList of
        [] \<Rightarrow> Some (True, st)
      | graphic # rest \<Rightarrow>
          (case NewHole (aPolygons st) of
             None \<Rightarrow> None
           | Some (hole, ps0) \<Rightarrow>
               (let holeNum' = holeNum + 1;
                    st0 = st\<lparr>aPolygons := ps0, holeIters := Suc (holeIters st)\<rparr> in
                if GetShape graphic = S_POLYGON then
                  (case Append_all (map (place g (GetParentModule graphic)) (GetPolyShape graphic))
                          hole ps0 of
                     None \<Rightarrow> None
                   | Some ps \<Rightarrow> hole_loop g aTolerance holeNum' rest (st0\<lparr>aPolygons := ps\<rparr>))
                else if GetShape graphic = S_CIRCLE then
                  (case Append_all (hole_circle_points g aTolerance graphic) hole ps0 of
                     None \<Rightarrow> None
                   | Some ps \<Rightarrow> hole_loop g aTolerance holeNum' rest (st0\<lparr>aPolygons := ps\<rparr>))
                else if GetShape graphic = S_RECT then
                  (case Append_all (GetRectCorners graphic) hole ps0 of
                     None \<Rightarrow> None
                   | Some ps \<Rightarrow> hole_loop g aTolerance holeNum' rest (st0\<lparr>aPolygons := ps\<rparr>))
                else
                  (let startPt = GetEnd graphic; prevPt = GetEnd graphic in
                   case Append prevPt hole ps0 of
                     None \<Rightarrow> None
                   | Some ps \<Rightarrow>
                       (case walk g aTolerance (Some (hole, holeNum')) startPt graphic prevPt rest
                               (st0\<lparr>aPolygons := ps\<rparr>) of
                          None \<Rightarrow> None
                        | Some (Return_false, segList', st') \<Rightarrow> Some (False, st')
                        | Some (Loop_break, segList', st') \<Rightarrow>
                            hole_loop g aTolerance holeNum' segList' st')))))"
  by pat_completeness auto
termination
  apply (relation "measure (\<lambda>(g, aTolerance, holeNum, segList, st). length segList)")
      apply simp_all
  apply (clarsimp dest!: sym [of "(Loop_break, _)"])
  apply (drule walk_length)
  apply simp
  done

declare hole_loop.simps [simp del]


section \<open>ConvertOutlineToPolygon (lines 186-758)\<close>

text \<open>
  The first contour (lines 326-509), built from the primitive \<open>graphic\<close> that holds the
  leftmost point; \<open>segList\<close> is the list without it.
\<close>

definition first_contour ::
  "GEOMETRY \<Rightarrow> nat \<Rightarrow> DRAWSEGMENT \<Rightarrow> DRAWSEGMENT list \<Rightarrow> CONV_STATE
     \<Rightarrow> (WALK_EXIT \<times> DRAWSEGMENT list \<times> CONV_STATE) option" where
  "first_contour g aTolerance graphic segList st =
     (if GetShape graphic = S_CIRCLE then
        (case Append_all (TransformCircleToPolygon g (GetCenter graphic) (GetRadius graphic) aTolerance)
                (- 1) (NewOutline (aPolygons st)) of
           None \<Rightarrow> None
         | Some ps \<Rightarrow> Some (Loop_break, segList, st\<lparr>aPolygons := ps\<rparr>))
      else if GetShape graphic = S_RECT then
        (case Append_all (GetRectCorners graphic) (- 1) (NewOutline (aPolygons st)) of
           None \<Rightarrow> None
         | Some ps \<Rightarrow> Some (Loop_break, segList, st\<lparr>aPolygons := ps\<rparr>))
      else if GetShape graphic = S_POLYGON then
        (case Append_all (map (place g (GetParentModule graphic)) (GetPolyShape graphic))
                (- 1) (NewOutline (aPolygons st)) of
           None \<Rightarrow> None
         | Some ps \<Rightarrow> Some (Loop_break, segList, st\<lparr>aPolygons := ps\<rparr>))
      else
        (let startPt = (if GetShape graphic = S_ARC then GetArcEnd graphic else GetEnd graphic);
             prevPt = startPt in
         case Append prevPt (- 1) (NewOutline (aPolygons st)) of
           None \<Rightarrow> None
         | Some ps \<Rightarrow> walk g aTolerance None startPt graphic prevPt segList (st\<lparr>aPolygons := ps\<rparr>)))"

text \<open>The pairwise scan of the segments (lines 724-755): the error location of the first hit.\<close>

fun check_against :: "GEOMETRY \<Rightarrow> SEG \<Rightarrow> SEG list \<Rightarrow> wxPoint option" where
  "check_against g seg1 [] = None"
| "check_against g seg1 (seg2 # rest) =
     (if seg1 = seg2 \<or> (fst seg1 = snd seg2 \<and> snd seg1 = fst seg2) then Some (fst seg1)
      else
        (case SEG_Intersect g seg1 seg2 of
           Some pt \<Rightarrow> Some pt
         | None \<Rightarrow> check_against g seg1 rest))"

fun check_segments :: "GEOMETRY \<Rightarrow> SEG list \<Rightarrow> wxPoint option" where
  "check_segments g [] = None"
| "check_segments g (seg1 # rest) =
     (case check_against g seg1 rest of
        Some pt \<Rightarrow> Some pt
      | None \<Rightarrow> check_segments g rest)"

definition initial_state :: "SHAPE_POLY_SET \<Rightarrow> CONV_STATE" where
  "initial_state ps =
     \<lparr>aPolygons = ps, aErrorLocation = None, aErrorText = [], polygonComplete = True,
      walkIters = 0, holeIters = 0\<rparr>"

text \<open>
  The contours of the conversion, before the scan for collisions: \<open>False\<close> with the state
  at a \<open>return false\<close>, otherwise \<open>True\<close> with the state after the loop over the holes.
\<close>

definition build_contours ::
  "GEOMETRY \<Rightarrow> DRAWSEGMENT list \<Rightarrow> SHAPE_POLY_SET \<Rightarrow> nat \<Rightarrow> (bool \<times> CONV_STATE) option" where
  "build_contours g aSegList ps aTolerance =
     (let segList = aSegList;
          (xmin, xmini) = find_xmin g aTolerance aSegList;
          graphic = segList ! xmini;
          segList1 = erase_at xmini segList
      in case first_contour g aTolerance graphic segList1 (initial_state ps) of
           None \<Rightarrow> None
         | Some (Return_false, segList2, st) \<Rightarrow> Some (False, st)
         | Some (Loop_break, segList2, st) \<Rightarrow> hole_loop g aTolerance (- 1) segList2 st)"

text \<open>
  The result is the returned value with the final state, or \<open>None\<close> when the run indexes a
  vector out of range.
\<close>

definition ConvertOutlineToPolygon ::
  "GEOMETRY \<Rightarrow> DRAWSEGMENT list \<Rightarrow> SHAPE_POLY_SET \<Rightarrow> nat \<Rightarrow> (bool \<times> CONV_STATE) option" where
  "ConvertOutlineToPolygon g aSegList ps aTolerance =
     (if aSegList = [] then Some (True, initial_state ps)
      else
        (case build_contours g aSegList ps aTolerance of
           None \<Rightarrow> None
         | Some (False, st) \<Rightarrow> Some (False, st)
         | Some (True, st) \<Rightarrow>
             (case check_segments g (IterateSegmentsWithHoles (aPolygons st)) of
                Some pt \<Rightarrow> Some (False, st\<lparr>aErrorLocation := Some pt\<rparr>)
              | None \<Rightarrow> Some (polygonComplete st, st))))"


section \<open>BuildBoardPolygonOutlines (lines 767-831)\<close>

text \<open>
  Modelled from the spec: the class \<open>BOARD\<close> is not part of the sources at hand. A board is
  what the function reads from it: the graphic items that \<open>items.Collect\<close> gathers, and the
  two bounding boxes.
\<close>

record BOARD =
  CollectedItems :: "DRAWSEGMENT list"
  GetBoardEdgesBoundingBox :: EDA_RECT
  ComputeBoundingBox :: EDA_RECT

definition fallback_bbox :: "GEOMETRY \<Rightarrow> BOARD \<Rightarrow> EDA_RECT" where
  "fallback_bbox g aBoard =
     (let bbbox = GetBoardEdgesBoundingBox aBoard;
          bbbox1 = (if GetWidth bbbox = 0 \<or> GetHeight bbbox = 0
                    then ComputeBoundingBox aBoard else bbbox);
          bbbox2 = (if GetWidth bbbox1 = 0 \<or> GetHeight bbbox1 = 0
                    then Inflate g bbbox1 (Millimeter2iu g) else bbbox1)
      in bbbox2)"

definition bbox_corners :: "EDA_RECT \<Rightarrow> wxPoint list" where
  "bbox_corners bbbox =
     [GetOrigin bbbox,
      (fst (GetOrigin bbbox), snd (GetRectEnd bbbox)),
      GetRectEnd bbbox,
      (fst (GetRectEnd bbbox), snd (GetOrigin bbbox))]"

text \<open>The collected items on the layer \<open>Edge_Cuts\<close> (lines 781-785).\<close>

definition edge_items :: "BOARD \<Rightarrow> DRAWSEGMENT list" where
  "edge_items aBoard = filter (\<lambda>item. GetLayer item = Edge_Cuts) (CollectedItems aBoard)"

text \<open>
  The result is the returned value \<open>success\<close> with the final state (\<open>aOutlines\<close> is its field
  \<open>aPolygons\<close>), or \<open>None\<close> when the run indexes a vector out of range.
\<close>

definition BuildBoardPolygonOutlines ::
  "GEOMETRY \<Rightarrow> BOARD \<Rightarrow> SHAPE_POLY_SET \<Rightarrow> nat \<Rightarrow> (bool \<times> CONV_STATE) option" where
  "BuildBoardPolygonOutlines g aBoard aOutlines aTolerance =
     (let segList = edge_items aBoard in
      case (if segList \<noteq> []
            then ConvertOutlineToPolygon g segList aOutlines aTolerance
            else Some (False, (initial_state aOutlines)\<lparr>aErrorText := [No_edges_found]\<rparr>)) of
        None \<Rightarrow> None
      | Some (success, st) \<Rightarrow>
          if \<not> success \<or> OutlineCount (aPolygons st) = 0 then
            (case Append_all (bbox_corners (fallback_bbox g aBoard)) (- 1) (NewOutline []) of
               None \<Rightarrow> None
             | Some ps \<Rightarrow> Some (success, st\<lparr>aPolygons := ps\<rparr>))
          else Some (success, st))"


section \<open>Concrete inputs\<close>

text \<open>
  Modelled from the spec: \<open>SEG::Intersect\<close> is not part of the sources at hand. Section 4.7
  of the spec asks for a true geometric crossing that excludes shared end points, reported
  at the intersection point. Two segments cross when they are not parallel and the lines
  through them meet in a point of both segments that is not an end point of both; the
  point is rounded to integer coordinates.
\<close>

definition cross :: "wxPoint \<Rightarrow> wxPoint \<Rightarrow> int" where
  "cross a b = fst a * snd b - snd a * fst b"

definition rescale :: "int \<Rightarrow> int \<Rightarrow> int \<Rightarrow> int" where
  "rescale q f d = sgn (q * f) * sgn d * ((2 * \<bar>q * f\<bar> + \<bar>d\<bar>) div (2 * \<bar>d\<bar>))"

definition crossing_point :: "SEG \<Rightarrow> SEG \<Rightarrow> wxPoint option" where
  "crossing_point seg1 seg2 =
     (let e = (fst (snd seg1) - fst (fst seg1), snd (snd seg1) - snd (fst seg1));
          f = (fst (snd seg2) - fst (fst seg2), snd (snd seg2) - snd (fst seg2));
          ac = (fst (fst seg2) - fst (fst seg1), snd (fst seg2) - snd (fst seg1));
          d = cross f e;
          p = cross f ac;
          q = cross e ac
      in if d = 0 then None
         else if d > 0 \<and> (q < 0 \<or> q > d \<or> p < 0 \<or> p > d) then None
         else if d < 0 \<and> (q < d \<or> p < d \<or> p > 0 \<or> q > 0) then None
         else if (q = 0 \<or> q = d) \<and> (p = 0 \<or> p = d) then None
         else Some (fst (fst seg2) + rescale q (fst f) d, snd (fst seg2) + rescale q (snd f) d))"

text \<open>
  A geometry for inputs that consist of straight segments only: the helpers for arcs,
  circles, polygons and rectangles are left unspecified, so that a result computed with it
  does not depend on them.
\<close>

definition segment_geometry :: GEOMETRY where
  "segment_geometry =
     \<lparr>GetArcToSegmentCount = undefined, RotateArcPoint = undefined,
      RotateCirclePoint = undefined, RotatePoint = undefined,
      TransformCircleToPolygon = undefined, SEG_Intersect = crossing_point,
      Inflate = undefined, Millimeter2iu = undefined\<rparr>"

text \<open>A straight segment from \<open>a\<close> to \<open>b\<close> on the edge layer, outside of any footprint.\<close>

definition segment :: "wxPoint \<Rightarrow> wxPoint \<Rightarrow> DRAWSEGMENT" where
  "segment a b =
     \<lparr>GetShape = S_SEGMENT, GetLayer = Edge_Cuts, GetStart = a, GetEnd = b,
      GetArcStart = b, GetArcEnd = b, GetCenter = a, GetRadius = 0, GetAngle = 0,
      GetBezierPoints = [], GetRectCorners = [], GetPolyShape = [],
      GetParentModule = None, GetPosition = a\<rparr>"

definition square_segments :: "DRAWSEGMENT list" where
  "square_segments =
     [segment (0, 0) (10, 0), segment (10, 0) (10, 10),
      segment (10, 10) (0, 10), segment (0, 10) (0, 0)]"


definition reversed_pair :: "DRAWSEGMENT list" where
  "reversed_pair = [segment (0, 0) (10, 0), segment (10, 0) (0, 0)]"

text \<open>
  Three triangles that do not touch: the first holds the leftmost point, the second starts
  one unit below the corner \<open>(10, 0)\<close> of the first, the third one unit to the right of the
  corner \<open>(10, - 1)\<close> of the second.
\<close>

definition three_triangles :: "DRAWSEGMENT list" where
  "three_triangles =
     [segment (0, 0) (10, 0), segment (10, 0) (10, 10), segment (10, 10) (0, 0),
      segment (10, - 1) (10, - 10), segment (10, - 10) (5, - 10), segment (5, - 10) (10, - 1),
      segment (11, - 1) (20, - 1), segment (20, - 1) (20, - 10), segment (20, - 10) (11, - 1)]"

text \<open>The point sequences of the outer outlines, and of the holes, of a result.\<close>

definition outline_points :: "(bool \<times> CONV_STATE) option \<Rightarrow> wxPoint list list" where
  "outline_points r =
     (case r of None \<Rightarrow> [] | Some (ret, st) \<Rightarrow> map (\<lambda>poly. CPoints (hd poly)) (aPolygons st))"

definition hole_count :: "(bool \<times> CONV_STATE) option \<Rightarrow> nat list" where
  "hole_count r =
     (case r of None \<Rightarrow> [] | Some (ret, st) \<Rightarrow> map (\<lambda>poly. length poly - 1) (aPolygons st))"

definition returned :: "(bool \<times> CONV_STATE) option \<Rightarrow> bool option" where
  "returned r = map_option fst r"


section \<open>Evaluation of concrete runs\<close>

lemmas run_defs =
  ConvertOutlineToPolygon_def build_contours_def find_xmin_def xmin_points_def
  take_min_def INT_MAX_def segment_def erase_at_def first_contour_def initial_state_def
  NewOutline_def NewHole_def Append_def contour_index_def empty_path_def walk.simps
  hole_loop.simps chain_step_def close_st_def close_ness_def close_enough_def findPoint_def
  search_points_def target_hole_def Hole_SetClosed_def IterateSegmentsWithHoles_def
  chain_segments_def segment_geometry_def crossing_point_def cross_def rescale_def Let_def

lemma run_square:
  "ConvertOutlineToPolygon segment_geometry square_segments [] 0 =
     Some (True,
           \<lparr>aPolygons =
              [[\<lparr>CPoints = [(10, 0), (0, 0), (0, 10), (10, 10), (10, 0)], IsClosed = True\<rparr>]],
            aErrorLocation = None, aErrorText = [], polygonComplete = True,
            walkIters = 4, holeIters = 0\<rparr>)"
  by (simp add: run_defs square_segments_def)

lemma run_reversed_pair:
  "ConvertOutlineToPolygon segment_geometry reversed_pair [] 0 =
     Some (False,
           \<lparr>aPolygons = [[\<lparr>CPoints = [(10, 0), (0, 0), (10, 0)], IsClosed = True\<rparr>]],
            aErrorLocation = Some (10, 0), aErrorText = [], polygonComplete = True,
            walkIters = 2, holeIters = 0\<rparr>)"
  by (simp add: run_defs reversed_pair_def)

lemma run_single_segment:
  "ConvertOutlineToPolygon segment_geometry [segment (0, 0) (10, 0)] [] 0 =
     Some (False,
           \<lparr>aPolygons = [[\<lparr>CPoints = [(10, 0), (0, 0)], IsClosed = True\<rparr>]],
            aErrorLocation = Some (10, 0), aErrorText = [Unable_to_find_edge (0, 0)],
            polygonComplete = False, walkIters = 1, holeIters = 0\<rparr>)"
  by (simp add: run_defs)

lemma run_two_segments:
  "ConvertOutlineToPolygon segment_geometry [segment (0, 0) (10, 0), segment (20, 0) (30, 0)] [] 0 =
     Some (False,
           \<lparr>aPolygons = [[\<lparr>CPoints = [(10, 0), (0, 0)], IsClosed = True\<rparr>,
                          \<lparr>CPoints = [(30, 0), (20, 0)], IsClosed = False\<rparr>]],
            aErrorLocation = Some (10, 0),
            aErrorText = [Unable_to_find_edge (0, 0), Unable_to_find_edge (20, 0)],
            polygonComplete = False, walkIters = 2, holeIters = 1\<rparr>)"
  by (simp add: run_defs)

lemma run_three_triangles_0:
  "ConvertOutlineToPolygon segment_geometry three_triangles [] 0 =
     Some (True,
           \<lparr>aPolygons =
              [[\<lparr>CPoints = [(10, 0), (0, 0), (10, 10), (10, 0)], IsClosed = True\<rparr>,
                \<lparr>CPoints = [(10, - 10), (10, - 1), (5, - 10), (10, - 10)], IsClosed = True\<rparr>,
                \<lparr>CPoints = [(20, - 1), (11, - 1), (20, - 10), (20, - 1)], IsClosed = True\<rparr>]],
            aErrorLocation = None, aErrorText = [], polygonComplete = True,
            walkIters = 9, holeIters = 2\<rparr>)"
  by (simp add: run_defs three_triangles_def)



section \<open>The empty input\<close>

text \<open>
  Claim C10. For the empty input list and any tolerance, \<open>ConvertOutlineToPolygon\<close> returns
  true and leaves the output polygon set as it was: no outline, hole or point is added
  (and neither the error location nor the error text is written).
\<close>

theorem C10_empty_input_unchanged:
  "ConvertOutlineToPolygon g [] aPolygons0 aTolerance = Some (True, initial_state aPolygons0)
   \<and> aPolygons (initial_state aPolygons0) = aPolygons0
   \<and> aErrorLocation (initial_state aPolygons0) = None
   \<and> aErrorText (initial_state aPolygons0) = []"
  by (simp add: ConvertOutlineToPolygon_def initial_state_def)


section \<open>The square of four segments\<close>

text \<open>
  Claim C2, as stated, fails. For the four segments of the square at tolerance 0 the single
  outline does not consist of four points: the walk appends the far end of every segment,
  and the far end of the last segment is the start point again, so that the outline has
  five points.
\<close>

theorem C2_counterexample:
  "map length (outline_points (ConvertOutlineToPolygon segment_geometry square_segments [] 0)) = [5]
   \<and> map length (outline_points (ConvertOutlineToPolygon segment_geometry square_segments [] 0)) \<noteq> [4]"
  by (simp add: run_square outline_points_def)

text \<open>
  Claim C2, amended. For the four segments of the square at tolerance 0,
  \<open>ConvertOutlineToPolygon\<close> returns true and produces exactly one outer outline and no
  hole; the outline is the point sequence \<open>(10,0), (0,0), (0,10), (10,10), (10,0)\<close>: the four
  corners in the order of the walk, with the start corner repeated at the end. The set of
  its points is the set of the four corners.
\<close>

theorem C2_square_outline:
  "returned (ConvertOutlineToPolygon segment_geometry square_segments [] 0) = Some True
   \<and> outline_points (ConvertOutlineToPolygon segment_geometry square_segments [] 0) =
       [[(10, 0), (0, 0), (0, 10), (10, 10), (10, 0)]]
   \<and> hole_count (ConvertOutlineToPolygon segment_geometry square_segments [] 0) = [0]
   \<and> set (concat (outline_points (ConvertOutlineToPolygon segment_geometry square_segments [] 0))) =
       {(0, 0), (10, 0), (10, 10), (0, 10)}"
  by (auto simp: run_square outline_points_def hole_count_def returned_def)


section \<open>Post-validation (lines 724-755)\<close>

text \<open>
  The test of lines 732-733 for exactly overlapping segments, the pairs of segments at which
  the scan stops, and the error location it then writes.
\<close>

definition same_edge :: "SEG \<Rightarrow> SEG \<Rightarrow> bool" where
  "same_edge seg1 seg2 \<longleftrightarrow> seg1 = seg2 \<or> (fst seg1 = snd seg2 \<and> snd seg1 = fst seg2)"

definition collide :: "GEOMETRY \<Rightarrow> SEG \<Rightarrow> SEG \<Rightarrow> bool" where
  "collide g seg1 seg2 \<longleftrightarrow> same_edge seg1 seg2 \<or> SEG_Intersect g seg1 seg2 \<noteq> None"

definition collision_point :: "GEOMETRY \<Rightarrow> SEG \<Rightarrow> SEG \<Rightarrow> wxPoint option" where
  "collision_point g seg1 seg2 =
     (if same_edge seg1 seg2 then Some (fst seg1) else SEG_Intersect g seg1 seg2)"

lemma check_against_None:
  "check_against g seg1 rest = None \<longleftrightarrow> (\<forall>seg2 \<in> set rest. \<not> collide g seg1 seg2)"
  by (induction rest) (auto simp: collide_def same_edge_def split: option.splits)

lemma check_against_Some:
  "check_against g seg1 rest = Some pt \<Longrightarrow>
   \<exists>k < length rest. collision_point g seg1 (rest ! k) = Some pt
      \<and> (\<forall>k' < k. \<not> collide g seg1 (rest ! k'))"
proof (induction rest)
  case Nil
  then show ?case by simp
next
  case (Cons seg2 rest)
  show ?case
  proof (cases "collide g seg1 seg2")
    case True
    with Cons.prems have "collision_point g seg1 seg2 = Some pt"
      by (auto simp: collide_def collision_point_def same_edge_def split: option.splits if_splits)
    then show ?thesis by (intro exI [of _ 0]) simp
  next
    case False
    with Cons.prems have "check_against g seg1 rest = Some pt"
      by (auto simp: collide_def same_edge_def split: option.splits if_splits)
    from Cons.IH [OF this] obtain k where k: "k < length rest"
      "collision_point g seg1 (rest ! k) = Some pt" "\<forall>k' < k. \<not> collide g seg1 (rest ! k')"
      by blast
    have "\<forall>k' < Suc k. \<not> collide g seg1 ((seg2 # rest) ! k')"
      using False k(3) by (auto simp: less_Suc_eq_0_disj)
    with k(1,2) show ?thesis by (intro exI [of _ "Suc k"]) simp
  qed
qed

lemma check_segments_None:
  "check_segments g segs = None \<longleftrightarrow>
   (\<forall>i j. i < j \<and> j < length segs \<longrightarrow> \<not> collide g (segs ! i) (segs ! j))"
proof (induction segs)
  case Nil
  then show ?case by simp
next
  case (Cons seg1 rest)
  have "(\<forall>i j. i < j \<and> j < length (seg1 # rest) \<longrightarrow> \<not> collide g ((seg1 # rest) ! i) ((seg1 # rest) ! j))
        \<longleftrightarrow> (\<forall>seg2 \<in> set rest. \<not> collide g seg1 seg2)
            \<and> (\<forall>i j. i < j \<and> j < length rest \<longrightarrow> \<not> collide g (rest ! i) (rest ! j))"
    (is "?L \<longleftrightarrow> ?A \<and> ?B")
  proof
    assume L: ?L
    have ?A
    proof
      fix seg2 assume "seg2 \<in> set rest"
      then obtain k where "k < length rest" "rest ! k = seg2" by (auto simp: in_set_conv_nth)
      with L [rule_format, of 0 "Suc k"] show "\<not> collide g seg1 seg2" by simp
    qed
    moreover have ?B
    proof (intro allI impI)
      fix i j assume "i < j \<and> j < length rest"
      with L [rule_format, of "Suc i" "Suc j"] show "\<not> collide g (rest ! i) (rest ! j)" by simp
    qed
    ultimately show "?A \<and> ?B" ..
  next
    assume AB: "?A \<and> ?B"
    show ?L
    proof (intro allI impI)
      fix i j assume ij: "i < j \<and> j < length (seg1 # rest)"
      then obtain j' where j': "j = Suc j'" by (cases j) auto
      show "\<not> collide g ((seg1 # rest) ! i) ((seg1 # rest) ! j)"
      proof (cases i)
        case 0
        with AB ij j' show ?thesis by auto
      next
        case (Suc i')
        with AB ij j' show ?thesis by auto
      qed
    qed
  qed
  with Cons.IH show ?case
    by (simp add: check_against_None split: option.splits)
      (metis check_against_None not_Some_eq)
qed

lemma check_segments_Some:
  "check_segments g segs = Some pt \<Longrightarrow>
   \<exists>i j. i < j \<and> j < length segs \<and> collision_point g (segs ! i) (segs ! j) = Some pt
      \<and> (\<forall>i' j'. i' < j' \<and> j' < length segs \<and> (i' < i \<or> (i' = i \<and> j' < j))
            \<longrightarrow> \<not> collide g (segs ! i') (segs ! j'))"
proof (induction segs)
  case Nil
  then show ?case by simp
next
  case (Cons seg1 rest)
  show ?case
  proof (cases "check_against g seg1 rest")
    case (Some pt')
    with Cons.prems have "pt' = pt" by simp
    with Some check_against_Some [of g seg1 rest pt] obtain k where k: "k < length rest"
      "collision_point g seg1 (rest ! k) = Some pt" "\<forall>k' < k. \<not> collide g seg1 (rest ! k')"
      by blast
    have "\<forall>i' j'. i' < j' \<and> j' < length (seg1 # rest) \<and> (i' < 0 \<or> (i' = 0 \<and> j' < Suc k))
            \<longrightarrow> \<not> collide g ((seg1 # rest) ! i') ((seg1 # rest) ! j')"
    proof (intro allI impI)
      fix i' j' assume a: "i' < j' \<and> j' < length (seg1 # rest) \<and> (i' < 0 \<or> (i' = 0 \<and> j' < Suc k))"
      then obtain m where "j' = Suc m" by (cases j') auto
      with a k(3) show "\<not> collide g ((seg1 # rest) ! i') ((seg1 # rest) ! j')" by auto
    qed
    with k(1,2) show ?thesis
      by (intro exI [of _ 0] exI [of _ "Suc k"]) simp
  next
    case None
    with Cons.prems have "check_segments g rest = Some pt" by simp
    from Cons.IH [OF this] obtain i j where ij: "i < j" "j < length rest"
      "collision_point g (rest ! i) (rest ! j) = Some pt"
      "\<forall>i' j'. i' < j' \<and> j' < length rest \<and> (i' < i \<or> (i' = i \<and> j' < j))
            \<longrightarrow> \<not> collide g (rest ! i') (rest ! j')"
      by blast
    from None have first: "\<forall>seg2 \<in> set rest. \<not> collide g seg1 seg2"
      by (simp add: check_against_None)
    have "\<forall>i' j'. i' < j' \<and> j' < length (seg1 # rest) \<and> (i' < Suc i \<or> (i' = Suc i \<and> j' < Suc j))
            \<longrightarrow> \<not> collide g ((seg1 # rest) ! i') ((seg1 # rest) ! j')"
    proof (intro allI impI)
      fix i' j'
      assume a: "i' < j' \<and> j' < length (seg1 # rest) \<and> (i' < Suc i \<or> (i' = Suc i \<and> j' < Suc j))"
      then obtain m where m: "j' = Suc m" by (cases j') auto
      show "\<not> collide g ((seg1 # rest) ! i') ((seg1 # rest) ! j')"
      proof (cases i')
        case 0
        with a m first show ?thesis by simp
      next
        case (Suc n)
        with a m ij(4) [rule_format, of n m] show ?thesis by auto
      qed
    qed
    with ij(1-3) show ?thesis
      by (intro exI [of _ "Suc i"] exI [of _ "Suc j"]) simp
  qed
qed

lemma same_edge_shared_point:
  "same_edge seg1 seg2 \<Longrightarrow> fst seg1 = fst seg2 \<or> fst seg1 = snd seg2"
  by (auto simp: same_edge_def)

text \<open>What the function returns once the contours are built.\<close>

lemma ConvertOutlineToPolygon_after_contours:
  assumes "aSegList \<noteq> []" and "build_contours g aSegList ps aTolerance = Some (True, st)"
  shows "ConvertOutlineToPolygon g aSegList ps aTolerance =
     (case check_segments g (IterateSegmentsWithHoles (aPolygons st)) of
        Some pt \<Rightarrow> Some (False, st\<lparr>aErrorLocation := Some pt\<rparr>)
      | None \<Rightarrow> Some (polygonComplete st, st))"
  using assms by (simp add: ConvertOutlineToPolygon_def)


definition bowtie :: "DRAWSEGMENT list" where
  "bowtie =
     [segment (0, 0) (10, 10), segment (10, 10) (0, 10),
      segment (0, 10) (10, 0), segment (10, 0) (0, 0)]"

lemma contours_reversed_pair:
  "build_contours segment_geometry reversed_pair [] 0 =
     Some (True,
           \<lparr>aPolygons = [[\<lparr>CPoints = [(10, 0), (0, 0), (10, 0)], IsClosed = True\<rparr>]],
            aErrorLocation = None, aErrorText = [], polygonComplete = True,
            walkIters = 2, holeIters = 0\<rparr>)"
  by (simp add: run_defs reversed_pair_def)

lemma contours_bowtie:
  "build_contours segment_geometry bowtie [] 0 =
     Some (True,
           \<lparr>aPolygons =
              [[\<lparr>CPoints = [(10, 10), (0, 0), (10, 0), (0, 10), (10, 10)], IsClosed = True\<rparr>]],
            aErrorLocation = None, aErrorText = [], polygonComplete = True,
            walkIters = 4, holeIters = 0\<rparr>)"
  by (simp add: run_defs bowtie_def)

lemma run_bowtie:
  "ConvertOutlineToPolygon segment_geometry bowtie [] 0 =
     Some (False,
           \<lparr>aPolygons =
              [[\<lparr>CPoints = [(10, 10), (0, 0), (10, 0), (0, 10), (10, 10)], IsClosed = True\<rparr>]],
            aErrorLocation = Some (5, 5), aErrorText = [], polygonComplete = True,
            walkIters = 4, holeIters = 0\<rparr>)"
  by (simp add: run_defs bowtie_def)

definition bowtie_contours :: CONV_STATE where
  "bowtie_contours =
     \<lparr>aPolygons =
        [[\<lparr>CPoints = [(10, 10), (0, 0), (10, 0), (0, 10), (10, 10)], IsClosed = True\<rparr>]],
      aErrorLocation = None, aErrorText = [], polygonComplete = True,
      walkIters = 4, holeIters = 0\<rparr>"

definition reversed_pair_contours :: CONV_STATE where
  "reversed_pair_contours =
     \<lparr>aPolygons = [[\<lparr>CPoints = [(10, 0), (0, 0), (10, 0)], IsClosed = True\<rparr>]],
      aErrorLocation = None, aErrorText = [], polygonComplete = True,
      walkIters = 2, holeIters = 0\<rparr>"

lemma segments_bowtie:
  "IterateSegmentsWithHoles (aPolygons bowtie_contours) =
     [((10, 10), (0, 0)), ((0, 0), (10, 0)), ((10, 0), (0, 10)), ((0, 10), (10, 10)),
      ((10, 10), (10, 10))]"
  by (simp add: bowtie_contours_def IterateSegmentsWithHoles_def chain_segments_def)

lemma segments_reversed_pair:
  "IterateSegmentsWithHoles (aPolygons reversed_pair_contours) =
     [((10, 0), (0, 0)), ((0, 0), (10, 0)), ((10, 0), (10, 0))]"
  by (simp add: reversed_pair_contours_def IterateSegmentsWithHoles_def chain_segments_def)

lemma crossing_bowtie: "crossing_point ((10, 10), (0, 0)) ((10, 0), (0, 10)) = Some (5, 5)"
  by (simp add: crossing_point_def cross_def rescale_def)

text \<open>
  Claim C4. Whenever the contours that were built contain two segments that are exact
  duplicates, exact reverse duplicates, or that cross, \<open>ConvertOutlineToPolygon\<close> returns
  false. The error location belongs to the first such pair \<open>(seg1, seg2)\<close> in the order of
  the scan: for duplicates and reverse duplicates it is the end point \<open>seg1.A\<close>, which is an
  end point of \<open>seg2\<close> too; for a crossing it is the point that \<open>Intersect\<close> reports.
\<close>

theorem C4_collision_fails_with_location:
  assumes "aSegList \<noteq> []"
    and "build_contours g aSegList ps aTolerance = Some (True, st)"
    and "i < j" and "j < length (IterateSegmentsWithHoles (aPolygons st))"
    and "collide g (IterateSegmentsWithHoles (aPolygons st) ! i)
           (IterateSegmentsWithHoles (aPolygons st) ! j)"
  shows "\<exists>pt m n. ConvertOutlineToPolygon g aSegList ps aTolerance =
                     Some (False, st\<lparr>aErrorLocation := Some pt\<rparr>)
           \<and> m < n \<and> n < length (IterateSegmentsWithHoles (aPolygons st))
           \<and> (let seg1 = IterateSegmentsWithHoles (aPolygons st) ! m;
                   seg2 = IterateSegmentsWithHoles (aPolygons st) ! n
               in (if seg1 = seg2 \<or> (fst seg1 = snd seg2 \<and> snd seg1 = fst seg2)
                   then pt = fst seg1 \<and> (pt = fst seg2 \<or> pt = snd seg2)
                   else SEG_Intersect g seg1 seg2 = Some pt))
           \<and> (\<forall>m' n'. m' < n' \<and> n' < length (IterateSegmentsWithHoles (aPolygons st))
                    \<and> (m' < m \<or> (m' = m \<and> n' < n))
                  \<longrightarrow> \<not> collide g (IterateSegmentsWithHoles (aPolygons st) ! m')
                           (IterateSegmentsWithHoles (aPolygons st) ! n'))"
proof -
  let ?segs = "IterateSegmentsWithHoles (aPolygons st)"
  from assms(3-5) have "check_segments g ?segs \<noteq> None"
    by (auto simp: check_segments_None)
  then obtain pt where pt: "check_segments g ?segs = Some pt" by auto
  from check_segments_Some [OF this] obtain m n where mn: "m < n" "n < length ?segs"
    "collision_point g (?segs ! m) (?segs ! n) = Some pt"
    "\<forall>m' n'. m' < n' \<and> n' < length ?segs \<and> (m' < m \<or> (m' = m \<and> n' < n))
       \<longrightarrow> \<not> collide g (?segs ! m') (?segs ! n')"
    by blast
  from pt assms(1,2) have "ConvertOutlineToPolygon g aSegList ps aTolerance =
      Some (False, st\<lparr>aErrorLocation := Some pt\<rparr>)"
    by (simp add: ConvertOutlineToPolygon_after_contours)
  moreover from mn(3) have "let seg1 = ?segs ! m; seg2 = ?segs ! n
               in (if seg1 = seg2 \<or> (fst seg1 = snd seg2 \<and> snd seg1 = fst seg2)
                   then pt = fst seg1 \<and> (pt = fst seg2 \<or> pt = snd seg2)
                   else SEG_Intersect g seg1 seg2 = Some pt)"
    by (auto simp: collision_point_def same_edge_def Let_def split: if_splits)
  ultimately show ?thesis using mn(1,2,4) by blast
qed

theorem C4_witness:
  "bowtie \<noteq> []
   \<and> build_contours segment_geometry bowtie [] 0 = Some (True, bowtie_contours)
   \<and> collide segment_geometry (IterateSegmentsWithHoles (aPolygons bowtie_contours) ! 0)
        (IterateSegmentsWithHoles (aPolygons bowtie_contours) ! 2)
   \<and> (\<exists>pt m n. ConvertOutlineToPolygon segment_geometry bowtie [] 0 =
                     Some (False, bowtie_contours\<lparr>aErrorLocation := Some pt\<rparr>)
           \<and> m < n \<and> n < length (IterateSegmentsWithHoles (aPolygons bowtie_contours))
           \<and> (let seg1 = IterateSegmentsWithHoles (aPolygons bowtie_contours) ! m;
                   seg2 = IterateSegmentsWithHoles (aPolygons bowtie_contours) ! n
               in (if seg1 = seg2 \<or> (fst seg1 = snd seg2 \<and> snd seg1 = fst seg2)
                   then pt = fst seg1 \<and> (pt = fst seg2 \<or> pt = snd seg2)
                   else SEG_Intersect segment_geometry seg1 seg2 = Some pt))
           \<and> (\<forall>m' n'. m' < n' \<and> n' < length (IterateSegmentsWithHoles (aPolygons bowtie_contours))
                    \<and> (m' < m \<or> (m' = m \<and> n' < n))
                  \<longrightarrow> \<not> collide segment_geometry (IterateSegmentsWithHoles (aPolygons bowtie_contours) ! m')
                           (IterateSegmentsWithHoles (aPolygons bowtie_contours) ! n')))"
proof -
  have ne: "bowtie \<noteq> []" by (simp add: bowtie_def)
  have built: "build_contours segment_geometry bowtie [] 0 = Some (True, bowtie_contours)"
    by (simp add: contours_bowtie bowtie_contours_def)
  have len: "2 < length (IterateSegmentsWithHoles (aPolygons bowtie_contours))"
    by (simp add: segments_bowtie)
  have coll: "collide segment_geometry (IterateSegmentsWithHoles (aPolygons bowtie_contours) ! 0)
        (IterateSegmentsWithHoles (aPolygons bowtie_contours) ! 2)"
    by (simp add: segments_bowtie collide_def segment_geometry_def crossing_bowtie)
  from C4_collision_fails_with_location [OF ne built _ len coll] ne built coll
  show ?thesis by simp
qed


text \<open>
  Claim C5, as stated, fails. The two segments \<open>(0,0)-(10,0)\<close> and \<open>(10,0)-(0,0)\<close> give one
  closed outline (\<open>polygonComplete\<close> stays true) whose first two segments are exact reverse
  duplicates; no two of its segments cross. The function returns false: the reverse
  duplicate is fatal.
\<close>

theorem C5_counterexample:
  "build_contours segment_geometry reversed_pair [] 0 = Some (True, reversed_pair_contours)
   \<and> polygonComplete reversed_pair_contours
   \<and> IterateSegmentsWithHoles (aPolygons reversed_pair_contours) =
       [((10, 0), (0, 0)), ((0, 0), (10, 0)), ((10, 0), (10, 0))]
   \<and> crossing_point ((10, 0), (0, 0)) ((0, 0), (10, 0)) = None
   \<and> crossing_point ((10, 0), (0, 0)) ((10, 0), (10, 0)) = None
   \<and> crossing_point ((0, 0), (10, 0)) ((10, 0), (10, 0)) = None
   \<and> returned (ConvertOutlineToPolygon segment_geometry reversed_pair [] 0) = Some False"
proof -
  have "build_contours segment_geometry reversed_pair [] 0 = Some (True, reversed_pair_contours)"
    by (simp add: contours_reversed_pair reversed_pair_contours_def)
  moreover have "polygonComplete reversed_pair_contours"
    by (simp add: reversed_pair_contours_def)
  moreover have "returned (ConvertOutlineToPolygon segment_geometry reversed_pair [] 0) = Some False"
    by (simp add: run_reversed_pair returned_def)
  ultimately show ?thesis
    by (simp add: segments_reversed_pair crossing_point_def cross_def)
qed

text \<open>
  Claim C5, amended. In post-validation an exact reverse-duplicate edge is fatal in the
  same way as a true geometric intersection: when the contours that were built contain two
  segments that run between the same two end points in opposite order, or two segments
  that cross, \<open>ConvertOutlineToPolygon\<close> returns false.
\<close>

theorem C5_reverse_duplicate_is_fatal:
  assumes "aSegList \<noteq> []"
    and "build_contours g aSegList ps aTolerance = Some (True, st)"
    and "i < j" and "j < length (IterateSegmentsWithHoles (aPolygons st))"
    and "(fst (IterateSegmentsWithHoles (aPolygons st) ! i) =
            snd (IterateSegmentsWithHoles (aPolygons st) ! j)
          \<and> snd (IterateSegmentsWithHoles (aPolygons st) ! i) =
            fst (IterateSegmentsWithHoles (aPolygons st) ! j))
         \<or> SEG_Intersect g (IterateSegmentsWithHoles (aPolygons st) ! i)
              (IterateSegmentsWithHoles (aPolygons st) ! j) \<noteq> None"
  shows "returned (ConvertOutlineToPolygon g aSegList ps aTolerance) = Some False"
proof -
  let ?segs = "IterateSegmentsWithHoles (aPolygons st)"
  from assms(5) have "collide g (?segs ! i) (?segs ! j)"
    by (auto simp: collide_def same_edge_def)
  with assms(3,4) have "check_segments g ?segs \<noteq> None"
    by (auto simp: check_segments_None)
  with assms(1,2) show ?thesis
    by (auto simp: ConvertOutlineToPolygon_after_contours returned_def)
qed

theorem C5_witness:
  "reversed_pair \<noteq> []
   \<and> build_contours segment_geometry reversed_pair [] 0 = Some (True, reversed_pair_contours)
   \<and> fst (IterateSegmentsWithHoles (aPolygons reversed_pair_contours) ! 0) =
       snd (IterateSegmentsWithHoles (aPolygons reversed_pair_contours) ! 1)
   \<and> snd (IterateSegmentsWithHoles (aPolygons reversed_pair_contours) ! 0) =
       fst (IterateSegmentsWithHoles (aPolygons reversed_pair_contours) ! 1)
   \<and> returned (ConvertOutlineToPolygon segment_geometry reversed_pair [] 0) = Some False"
proof -
  have ne: "reversed_pair \<noteq> []" by (simp add: reversed_pair_def)
  have built: "build_contours segment_geometry reversed_pair [] 0 =
      Some (True, reversed_pair_contours)"
    by (simp add: contours_reversed_pair reversed_pair_contours_def)
  have len: "1 < length (IterateSegmentsWithHoles (aPolygons reversed_pair_contours))"
    by (simp add: segments_reversed_pair)
  have rev: "fst (IterateSegmentsWithHoles (aPolygons reversed_pair_contours) ! 0) =
       snd (IterateSegmentsWithHoles (aPolygons reversed_pair_contours) ! 1)
     \<and> snd (IterateSegmentsWithHoles (aPolygons reversed_pair_contours) ! 0) =
       fst (IterateSegmentsWithHoles (aPolygons reversed_pair_contours) ! 1)"
    by (simp add: segments_reversed_pair)
  from C5_reverse_duplicate_is_fatal [OF ne built _ len disjI1 [OF rev]] ne built rev
  show ?thesis by simp
qed


section \<open>What findPoint returns\<close>

text \<open>
  A primitive with an end point equal to the reference point, and the distance from the
  reference point to the nearer end point of a primitive.
\<close>

definition exact_match :: "wxPoint \<Rightarrow> DRAWSEGMENT \<Rightarrow> bool" where
  "exact_match aPoint graphic \<longleftrightarrow>
     aPoint = fst (search_points graphic) \<or> aPoint = snd (search_points graphic)"

definition end_distance :: "wxPoint \<Rightarrow> DRAWSEGMENT \<Rightarrow> nat" where
  "end_distance aPoint graphic =
     min (close_ness aPoint (fst (search_points graphic)))
         (close_ness aPoint (snd (search_points graphic)))"

lemma findPoint_loop_step:
  "\<not> exact_match p graphic \<Longrightarrow>
   findPoint_loop p (graphic # rest) j m n =
     findPoint_loop p rest (Suc j) (min m (end_distance p graphic))
       (if end_distance p graphic < m then j else n)"
  by (auto simp: exact_match_def end_distance_def case_prod_beta Let_def min_def)

lemma findPoint_loop_exact:
  "i < length xs \<Longrightarrow> exact_match p (xs ! i) \<Longrightarrow> (\<forall>k < i. \<not> exact_match p (xs ! k)) \<Longrightarrow>
   findPoint_loop p xs j m n = Inl (j + i)"
proof (induction xs arbitrary: i j m n)
  case Nil
  then show ?case by simp
next
  case (Cons graphic rest)
  show ?case
  proof (cases i)
    case 0
    with Cons.prems show ?thesis by (simp add: exact_match_def case_prod_beta)
  next
    case (Suc i')
    with Cons.prems have first: "\<not> exact_match p graphic" by auto
    from Suc Cons.prems have "i' < length rest" "exact_match p (rest ! i')"
      "\<forall>k < i'. \<not> exact_match p (rest ! k)" by auto
    from Cons.IH [OF this] Suc show ?thesis
      by (simp add: findPoint_loop_step [OF first] del: findPoint_loop.simps)
  qed
qed


text \<open>
  What \<open>findPoint\<close> returns for a limit below \<open>INT_MAX\<close>: the first primitive with an end
  point equal to the reference point if there is one; otherwise the first primitive among
  those with an end point at the least distance, if that distance is within the limit;
  otherwise \<open>NULL\<close>, with the pool unchanged.
\<close>

lemma findPoint_exact:
  assumes "i < length xs" and "exact_match p (xs ! i)" and "\<forall>k < i. \<not> exact_match p (xs ! k)"
  shows "findPoint p xs aLimit = Some (Some (xs ! i), erase_at i xs)"
  using findPoint_loop_exact [OF assms, of 0 INT_MAX 0] by (simp add: findPoint_def)



section \<open>findPoint on an empty pool\<close>

text \<open>
  Claim C3 asks for \<open>NULL\<close> and an unchanged pool whenever nothing is found. For the empty
  pool and the limit \<open>INT_MAX\<close> the loop does not run, \<open>min_d\<close> keeps its initial value
  \<open>INT_MAX\<close>, the test \<open>min_d <= aLimit\<close> succeeds, and the function reads \<open>aList[0]\<close> of an
  empty vector. One unit below that limit the function returns \<open>NULL\<close>.
\<close>

theorem C3_findPoint_empty_pool:
  "findPoint (0, 0) [] 2147483647 = None
   \<and> findPoint (0, 0) [] 2147483646 = Some (None, [])"
  by (simp add: findPoint_def INT_MAX_def)


section \<open>An outline that does not close\<close>

text \<open>
  Claim C1 asks that a contour whose walk ends away from its start is marked incomplete.
  For the single segment \<open>(0,0)-(10,0)\<close> at tolerance 0 the walk of the outline ends at
  \<open>(0,0)\<close>, away from its start \<open>(10,0)\<close>: the function clears \<open>polygonComplete\<close>, keeps the
  two points and returns false, but the outline stays marked closed. The scan for
  collisions then takes the closing segment of the outline for a reverse duplicate and
  replaces the error location \<open>(0,0)\<close> by \<open>(10,0)\<close>. A hole that does not close is marked
  open (second run).
\<close>

theorem C1_unclosed_outline_stays_closed:
  "ConvertOutlineToPolygon segment_geometry [segment (0, 0) (10, 0)] [] 0 =
     Some (False,
           \<lparr>aPolygons = [[\<lparr>CPoints = [(10, 0), (0, 0)], IsClosed = True\<rparr>]],
            aErrorLocation = Some (10, 0), aErrorText = [Unable_to_find_edge (0, 0)],
            polygonComplete = False, walkIters = 1, holeIters = 0\<rparr>)
   \<and> ConvertOutlineToPolygon segment_geometry
         [segment (0, 0) (10, 0), segment (20, 0) (30, 0)] [] 0 =
     Some (False,
           \<lparr>aPolygons = [[\<lparr>CPoints = [(10, 0), (0, 0)], IsClosed = True\<rparr>,
                          \<lparr>CPoints = [(30, 0), (20, 0)], IsClosed = False\<rparr>]],
            aErrorLocation = Some (10, 0),
            aErrorText = [Unable_to_find_edge (0, 0), Unable_to_find_edge (20, 0)],
            polygonComplete = False, walkIters = 2, holeIters = 1\<rparr>)"
  by (simp add: run_single_segment run_two_segments)


section \<open>Tolerance monotonicity\<close>






section \<open>The placement of a polygon in the scan and in the output\<close>





lemma Append_all_last_contour:
  "Append_all pts (int (length poly) - 1) (ps @ [poly @ [c]]) =
     Some (ps @ [poly @ [c\<lparr>CPoints := CPoints c @ pts\<rparr>]])"
proof (induction pts arbitrary: c)
  case Nil
  then show ?case by simp
next
  case (Cons pt pts)
  have "Append pt (int (length poly) - 1) (ps @ [poly @ [c]]) =
          Some (ps @ [poly @ [c\<lparr>CPoints := CPoints c @ [pt]\<rparr>]])"
    by (auto simp: Append_def contour_index_def Let_def nth_append)
  with Cons.IH [of "c\<lparr>CPoints := CPoints c @ [pt]\<rparr>"] show ?case by simp
qed

lemma Append_all_NewOutline:
  "Append_all pts (- 1) (NewOutline ps) = Some (ps @ [[\<lparr>CPoints = pts, IsClosed = True\<rparr>]])"
  using Append_all_last_contour [of pts "[]" ps empty_path]
  by (simp add: NewOutline_def empty_path_def)

















section \<open>Definedness and iteration counts\<close>

lemma findPoint_loop_Inr:
  "findPoint_loop p xs i m n = Inr (m', n') \<Longrightarrow>
   m' \<le> m \<and> (m' < m \<longrightarrow> i \<le> n' \<and> n' < i + length xs) \<and> (m' = m \<longrightarrow> n' = n)"
proof (induction xs arbitrary: i m n)
  case Nil
  then show ?case by simp
next
  case (Cons graphic rest)
  from Cons.prems obtain m2 n2 where
    step: "findPoint_loop p rest (Suc i) m2 n2 = Inr (m', n')"
    and m2: "m2 \<le> m" "m2 < m \<longrightarrow> n2 = i" "m2 = m \<longrightarrow> n2 = n"
    by (auto simp: case_prod_beta Let_def split: if_splits)
  from Cons.IH [OF step] m2 show ?case by auto
qed

lemma findPoint_defined:
  assumes "aLimit < INT_MAX"
  shows "\<exists>r. findPoint p xs aLimit = Some r"
proof (cases "findPoint_loop p xs 0 INT_MAX 0")
  case (Inl k)
  then show ?thesis by (simp add: findPoint_def)
next
  case (Inr r)
  obtain m' n' where r: "r = (m', n')" by (cases r)
  with Inr findPoint_loop_Inr [of p xs 0 INT_MAX 0 m' n'] assms
  have "m' \<le> aLimit \<longrightarrow> n' < length xs" by auto
  with Inr r show ?thesis by (auto simp: findPoint_def)
qed

text \<open>The number of contours of every polygon decides whether an index is in range.\<close>

lemma Append_defined:
  assumes "map length ps = [n]" and "contour_index aHole < n"
  shows "\<exists>ps'. Append pt aHole ps = Some ps' \<and> map length ps' = [n]"
proof -
  from assms(1) obtain poly where ps: "ps = [poly]" "length poly = n"
    by (cases ps) auto
  with assms(2) show ?thesis by (simp add: Append_def Let_def)
qed

lemma Append_all_defined:
  assumes "map length ps = [n]" and "contour_index aHole < n"
  shows "\<exists>ps'. Append_all pts aHole ps = Some ps' \<and> map length ps' = [n]"
  using assms(1)
proof (induction pts arbitrary: ps)
  case Nil
  then show ?case by simp
next
  case (Cons pt pts)
  from Append_defined [OF Cons.prems assms(2), of pt] obtain ps1 where
    "Append pt aHole ps = Some ps1" "map length ps1 = [n]" by auto
  with Cons.IH [of ps1] show ?case by simp
qed

lemma Hole_SetClosed_defined:
  assumes "map length ps = [n]" and "0 \<le> holeNum" and "nat (holeNum + 1) < n"
  shows "\<exists>ps'. Hole_SetClosed 0 holeNum aClosed ps = Some ps' \<and> map length ps' = [n]"
proof -
  from assms(1) obtain poly where ps: "ps = [poly]" "length poly = n"
    by (cases ps) auto
  with assms(2,3) show ?thesis by (simp add: Hole_SetClosed_def)
qed

lemma NewHole_defined:
  assumes "map length ps = [n]"
  shows "\<exists>ps0. NewHole ps = Some (int n - 1, ps0) \<and> map length ps0 = [Suc n]"
proof -
  from assms(1) obtain poly where ps: "ps = [poly]" "length poly = n"
    by (cases ps) auto
  then show ?thesis by (simp add: NewHole_def)
qed

text \<open>A walk is defined and counts its iterations.\<close>

lemma walk_defined:
  assumes "aTolerance < INT_MAX"
    and "contour_index (target_hole target) < n"
    and "\<And>hole holeNum. target = Some (hole, holeNum) \<Longrightarrow> 0 \<le> holeNum \<and> nat (holeNum + 1) < n"
  shows "map length (aPolygons st) = [n] \<Longrightarrow>
     \<exists>e l st'. walk g aTolerance target startPt graphic prevPt segList st = Some (e, l, st')
        \<and> map length (aPolygons st') = [n]"
proof (induction graphic prevPt segList st
    rule: walk_induct [where g = g and aTolerance = aTolerance and target = target])
  case (step graphic prevPt segList st)
  show ?case
  proof (cases "chain_step g aTolerance graphic prevPt")
    case None
    with step.prems show ?thesis by (simp add: walk_unsupported)
  next
    case (Some a)
    obtain pts nextPt where a: "chain_step g aTolerance graphic prevPt = Some (pts, nextPt)"
      using Some by (cases a) simp
    from Append_all_defined [OF step.prems assms(2), of pts] obtain ps where
      ps: "Append_all pts (target_hole target) (aPolygons st) = Some ps" "map length ps = [n]"
      by auto
    from findPoint_defined [OF assms(1), of nextPt segList] obtain gr l where
      fp: "findPoint nextPt segList aTolerance = Some (gr, l)" by (cases) auto
    show ?thesis
    proof (cases gr)
      case (Some graphic')
      with fp have fp': "findPoint nextPt segList aTolerance = Some (Some graphic', l)" by simp
      from step.IH [OF a ps(1) fp'] ps(2) show ?thesis
        by (simp add: walk_found [OF a ps(1) fp'])
    next
      case None
      with fp have fp': "findPoint nextPt segList aTolerance = Some (None, l)" by simp
      show ?thesis
      proof (cases "close_enough startPt nextPt aTolerance")
        case True
        with ps(2) show ?thesis by (simp add: walk_closed [OF a ps(1) fp'])
      next
        case False
        show ?thesis
        proof (cases target)
          case None
          with a ps fp' False show ?thesis
            by (simp add: walk_unclosed_outline target_hole_def)
        next
          case (Some t)
          obtain hole holeNum where t: "target = Some (hole, holeNum)"
            using Some by (cases t) simp
          from assms(3) [OF t] Hole_SetClosed_defined [OF ps(2), of holeNum False]
          obtain ps' where ps': "Hole_SetClosed 0 holeNum False ps = Some ps'"
            "map length ps' = [n]" by auto
          from a ps(1) fp' False ps' t show ?thesis
            by (simp add: walk_unclosed_hole target_hole_def)
        qed
      qed
    qed
  qed
qed

lemma walk_counts:
  "walk g aTolerance target startPt graphic prevPt segList st = Some (e, l, st') \<Longrightarrow>
   walkIters st' + length l = Suc (walkIters st + length segList) \<and> holeIters st' = holeIters st"
proof (induction graphic prevPt segList st
    rule: walk_induct [where g = g and aTolerance = aTolerance and target = target])
  case (step graphic prevPt segList st)
  from step.prems show ?case
  proof (cases rule: walk_cases)
    case unsupported
    with step.prems show ?thesis by (auto simp: walk_unsupported)
  next
    case (found pts nextPt ps graphic' l')
    from step.IH [OF found] findPoint_removes_one [OF found(3)] show ?thesis by simp
  next
    case (exhausted pts nextPt ps)
    with step.prems show ?thesis
      by (auto simp: walk.simps [of g aTolerance target startPt graphic prevPt segList st] Let_def
          split: if_splits option.splits)
  qed
qed

text \<open>The loop over the holes is defined and counts its iterations.\<close>

lemma hole_loop_closed_shape:
  assumes "NewHole (aPolygons st) = Some (hole, ps0)"
    and "GetShape graphic = S_POLYGON \<or> GetShape graphic = S_CIRCLE \<or> GetShape graphic = S_RECT"
  shows "\<exists>pts. hole_loop g aTolerance holeNum (graphic # rest) st =
     (case Append_all pts hole ps0 of
        None \<Rightarrow> None
      | Some ps \<Rightarrow> hole_loop g aTolerance (holeNum + 1) rest
          (st\<lparr>aPolygons := ps0, holeIters := Suc (holeIters st), aPolygons := ps\<rparr>))"
  using assms
  by (auto simp: hole_loop.simps [of g aTolerance holeNum "graphic # rest" st] Let_def)

lemma hole_loop_open_shape:
  assumes "NewHole (aPolygons st) = Some (hole, ps0)"
    and "\<not> (GetShape graphic = S_POLYGON \<or> GetShape graphic = S_CIRCLE \<or> GetShape graphic = S_RECT)"
  shows "hole_loop g aTolerance holeNum (graphic # rest) st =
     (case Append (GetEnd graphic) hole ps0 of
        None \<Rightarrow> None
      | Some ps \<Rightarrow>
          (case walk g aTolerance (Some (hole, holeNum + 1)) (GetEnd graphic) graphic
                  (GetEnd graphic) rest
                  (st\<lparr>aPolygons := ps0, holeIters := Suc (holeIters st), aPolygons := ps\<rparr>) of
             None \<Rightarrow> None
           | Some (Return_false, l, st') \<Rightarrow> Some (False, st')
           | Some (Loop_break, l, st') \<Rightarrow> hole_loop g aTolerance (holeNum + 1) l st'))"
  using assms
  by (auto simp: hole_loop.simps [of g aTolerance holeNum "graphic # rest" st] Let_def)

lemma hole_loop_defined:
  assumes "aTolerance < INT_MAX"
  shows "map length (aPolygons st) = [nat (holeNum + 2)] \<Longrightarrow> - 1 \<le> holeNum \<Longrightarrow>
     \<exists>b st'. hole_loop g aTolerance holeNum segList st = Some (b, st')"
proof (induction "length segList" arbitrary: segList holeNum st rule: less_induct)
  case less
  show ?case
  proof (cases segList)
    case Nil
    then show ?thesis by (auto simp: hole_loop.simps)
  next
    case (Cons graphic rest)
    define n where "n = nat (holeNum + 2)"
    define hole where "hole = int n - 1"
    define holeNum' where "holeNum' = holeNum + 1"
    from less.prems(2) have hv: "hole = holeNum'" "0 \<le> holeNum'" "- 1 \<le> holeNum'"
      and idx: "contour_index hole < Suc n" "nat (holeNum' + 1) < Suc n"
      and sh: "[Suc n] = [nat (holeNum' + 2)]"
      unfolding n_def hole_def holeNum'_def contour_index_def by auto
    from NewHole_defined [OF less.prems(1)] obtain ps0 where
      nh: "NewHole (aPolygons st) = Some (hole, ps0)" "map length ps0 = [Suc n]"
      unfolding n_def hole_def by auto
    show ?thesis
    proof (cases "GetShape graphic = S_POLYGON \<or> GetShape graphic = S_CIRCLE
        \<or> GetShape graphic = S_RECT")
      case True
      from hole_loop_closed_shape [OF nh(1) True, of g aTolerance holeNum rest]
      obtain pts where eq: "hole_loop g aTolerance holeNum (graphic # rest) st =
         (case Append_all pts hole ps0 of
            None \<Rightarrow> None
          | Some ps \<Rightarrow> hole_loop g aTolerance holeNum' rest
              (st\<lparr>aPolygons := ps0, holeIters := Suc (holeIters st), aPolygons := ps\<rparr>))"
        unfolding holeNum'_def by auto
      from Append_all_defined [OF nh(2) idx(1), of pts] obtain ps where
        ps: "Append_all pts hole ps0 = Some ps" "map length ps = [Suc n]" by auto
      have "\<exists>b st'. hole_loop g aTolerance holeNum' rest
               (st\<lparr>aPolygons := ps0, holeIters := Suc (holeIters st), aPolygons := ps\<rparr>) =
             Some (b, st')"
      proof (rule less.hyps)
        show "length rest < length segList" using Cons by simp
        show "map length (aPolygons (st\<lparr>aPolygons := ps0, holeIters := Suc (holeIters st),
            aPolygons := ps\<rparr>)) = [nat (holeNum' + 2)]"
          using ps(2) sh by simp
        show "- 1 \<le> holeNum'" by (rule hv(3))
      qed
      with eq ps(1) Cons show ?thesis by simp
    next
      case False
      from Append_defined [OF nh(2) idx(1), of "GetEnd graphic"] obtain ps where
        ps: "Append (GetEnd graphic) hole ps0 = Some ps" "map length ps = [Suc n]"
        by auto
      let ?st1 = "st\<lparr>aPolygons := ps0, holeIters := Suc (holeIters st), aPolygons := ps\<rparr>"
      have tgt: "contour_index (target_hole (Some (hole, holeNum'))) < Suc n"
        using idx(1) by (simp add: target_hole_def)
      have "\<exists>e l st'. walk g aTolerance (Some (hole, holeNum')) (GetEnd graphic) graphic
                (GetEnd graphic) rest ?st1 = Some (e, l, st')
              \<and> map length (aPolygons st') = [Suc n]"
      proof (rule walk_defined [OF assms tgt])
        show "map length (aPolygons ?st1) = [Suc n]" using ps(2) by simp
        show "0 \<le> hn \<and> nat (hn + 1) < Suc n" if "Some (hole, holeNum') = Some (h, hn)" for h hn
          using that hv(2) idx(2) by simp
      qed
      then obtain e l st1 where
        w: "walk g aTolerance (Some (hole, holeNum')) (GetEnd graphic) graphic
                (GetEnd graphic) rest ?st1 = Some (e, l, st1)"
           "map length (aPolygons st1) = [Suc n]"
        by auto
      from walk_length [OF w(1)] Cons have len: "length l < length segList" by simp
      have rec: "\<exists>b st'. hole_loop g aTolerance holeNum' l st1 = Some (b, st')"
      proof (rule less.hyps)
        show "length l < length segList" by (rule len)
        show "map length (aPolygons st1) = [nat (holeNum' + 2)]" using w(2) sh by simp
        show "- 1 \<le> holeNum'" by (rule hv(3))
      qed
      have "hole_loop g aTolerance holeNum (graphic # rest) st =
          (case e of Return_false \<Rightarrow> Some (False, st1)
           | Loop_break \<Rightarrow> hole_loop g aTolerance holeNum' l st1)"
        using ps(1) w(1) unfolding hole_loop_open_shape [OF nh(1) False] holeNum'_def
        by (cases e) simp_all
      with rec Cons show ?thesis by (cases e) auto
    qed
  qed
qed

lemma hole_loop_counts:
  "hole_loop g aTolerance holeNum segList st = Some (b, st') \<Longrightarrow>
   walkIters st' \<le> walkIters st + length segList \<and> holeIters st' \<le> holeIters st + length segList"
proof (induction "length segList" arbitrary: segList holeNum st rule: less_induct)
  case less
  show ?case
  proof (cases segList)
    case Nil
    with less.prems show ?thesis by (simp add: hole_loop.simps)
  next
    case (Cons graphic rest)
    from less.prems Cons obtain hole ps0 where
      nh: "NewHole (aPolygons st) = Some (hole, ps0)"
      by (auto simp: hole_loop.simps [of g aTolerance holeNum "graphic # rest" st]
          split: option.splits)
    define holeNum' where "holeNum' = holeNum + 1"
    show ?thesis
    proof (cases "GetShape graphic = S_POLYGON \<or> GetShape graphic = S_CIRCLE
        \<or> GetShape graphic = S_RECT")
      case True
      from hole_loop_closed_shape [OF nh True, of g aTolerance holeNum rest]
      obtain pts where eq: "hole_loop g aTolerance holeNum (graphic # rest) st =
         (case Append_all pts hole ps0 of
            None \<Rightarrow> None
          | Some ps \<Rightarrow> hole_loop g aTolerance holeNum' rest
              (st\<lparr>aPolygons := ps0, holeIters := Suc (holeIters st), aPolygons := ps\<rparr>))"
        unfolding holeNum'_def by auto
      with less.prems Cons obtain ps where
        rec: "hole_loop g aTolerance holeNum' rest
              (st\<lparr>aPolygons := ps0, holeIters := Suc (holeIters st), aPolygons := ps\<rparr>) =
            Some (b, st')"
        by (auto split: option.splits)
      from less.hyps [OF _ rec] Cons show ?thesis by simp
    next
      case False
      note eq = hole_loop_open_shape [OF nh False, of g aTolerance holeNum rest,
          folded holeNum'_def]
      with less.prems Cons obtain ps e l st1 where
        ps: "Append (GetEnd graphic) hole ps0 = Some ps"
        and w: "walk g aTolerance (Some (hole, holeNum')) (GetEnd graphic) graphic
                (GetEnd graphic) rest
                (st\<lparr>aPolygons := ps0, holeIters := Suc (holeIters st), aPolygons := ps\<rparr>) =
              Some (e, l, st1)"
        by (auto split: option.splits)
      from walk_counts [OF w] have c: "walkIters st1 + length l = Suc (walkIters st + length rest)"
        "holeIters st1 = Suc (holeIters st)" by simp_all
      from walk_length [OF w] Cons have len: "length l < length segList" by simp
      show ?thesis
      proof (cases e)
        case Return_false
        with less.prems Cons eq ps w have "st' = st1" by simp
        with c Cons show ?thesis by simp
      next
        case Loop_break
        with less.prems Cons eq ps w
        have rec: "hole_loop g aTolerance holeNum' l st1 = Some (b, st')" by simp
        from less.hyps [OF len rec] c Cons len show ?thesis by simp
      qed
    qed
  qed
qed

text \<open>The index that the scan selects is an index of the list.\<close>

lemma snd_foldl_take_min:
  "snd (foldl (take_min i) s pts) = snd s \<or> snd (foldl (take_min i) s pts) = i"
proof (induction pts arbitrary: s)
  case Nil
  then show ?case by simp
next
  case (Cons pt pts)
  have "snd (take_min i s pt) = snd s \<or> snd (take_min i s pt) = i"
    by (simp add: take_min_def)
  with Cons.IH [of "take_min i s pt"] show ?case
    by (metis foldl_Cons)
qed

lemma find_xmin_loop_index:
  "snd (find_xmin_loop g aTolerance L xs i s) = snd s
   \<or> (i \<le> snd (find_xmin_loop g aTolerance L xs i s)
       \<and> snd (find_xmin_loop g aTolerance L xs i s) < i + length xs)"
proof (induction xs arbitrary: i s)
  case Nil
  then show ?case by simp
next
  case (Cons graphic rest)
  from Cons.IH [of "Suc i" "foldl (take_min i) s (xmin_points g aTolerance L graphic)"]
    snd_foldl_take_min [of i s "xmin_points g aTolerance L graphic"]
  show ?case by auto
qed

lemma find_xmin_index:
  "aSegList \<noteq> [] \<Longrightarrow> snd (find_xmin g aTolerance aSegList) < length aSegList"
  using find_xmin_loop_index [of g aTolerance aSegList aSegList 0 "((int INT_MAX, 0), 0)"]
  by (auto simp: find_xmin_def)

lemma Append_NewOutline:
  "Append pt (- 1) (NewOutline ps) = Some (ps @ [[\<lparr>CPoints = [pt], IsClosed = True\<rparr>]])"
  using Append_all_NewOutline [of "[pt]" ps] by (simp split: option.splits)

lemma first_contour_defined:
  assumes "aTolerance < INT_MAX"
  shows "\<exists>e l st'. first_contour g aTolerance graphic segList (initial_state []) = Some (e, l, st')
     \<and> map length (aPolygons st') = [1]
     \<and> walkIters st' + length l \<le> Suc (length segList)
     \<and> length l \<le> length segList
     \<and> holeIters st' = 0"
proof (cases "GetShape graphic = S_CIRCLE \<or> GetShape graphic = S_RECT
    \<or> GetShape graphic = S_POLYGON")
  case True
  then show ?thesis
    by (auto simp: first_contour_def Append_all_NewOutline initial_state_def)
next
  case False
  define startPt where
    "startPt = (if GetShape graphic = S_ARC then GetArcEnd graphic else GetEnd graphic)"
  let ?st = "(initial_state [])\<lparr>aPolygons := [[\<lparr>CPoints = [startPt], IsClosed = True\<rparr>]]\<rparr>"
  from False have eq: "first_contour g aTolerance graphic segList (initial_state []) =
      walk g aTolerance None startPt graphic startPt segList ?st"
    by (simp add: first_contour_def Let_def Append_NewOutline startPt_def initial_state_def)
  have "\<exists>e l st'. walk g aTolerance None startPt graphic startPt segList ?st = Some (e, l, st')
      \<and> map length (aPolygons st') = [1]"
    by (rule walk_defined [OF assms])
      (simp_all add: target_hole_def contour_index_def)
  then obtain e l st' where w: "walk g aTolerance None startPt graphic startPt segList ?st =
      Some (e, l, st')" "map length (aPolygons st') = [1]"
    by auto
  from walk_counts [OF w(1)] walk_length [OF w(1)] w eq show ?thesis
    by (simp add: initial_state_def)
qed

lemma build_contours_defined:
  assumes "aTolerance < INT_MAX" and "aSegList \<noteq> []"
  shows "\<exists>b st. build_contours g aSegList [] aTolerance = Some (b, st)
     \<and> walkIters st \<le> length aSegList \<and> holeIters st \<le> length aSegList - 1"
proof -
  obtain xmin xmini where x: "find_xmin g aTolerance aSegList = (xmin, xmini)"
    by (cases "find_xmin g aTolerance aSegList")
  with find_xmin_index [OF assms(2), of g aTolerance] have "xmini < length aSegList" by simp
  then have len: "Suc (length (erase_at xmini aSegList)) = length aSegList"
    by (rule length_erase_at)
  from first_contour_defined [OF assms(1), of g "aSegList ! xmini" "erase_at xmini aSegList"]
  obtain e l st1 where
    fc: "first_contour g aTolerance (aSegList ! xmini) (erase_at xmini aSegList)
           (initial_state []) = Some (e, l, st1)"
    and sh: "map length (aPolygons st1) = [1]"
    and c: "walkIters st1 + length l \<le> Suc (length (erase_at xmini aSegList))"
      "length l \<le> length (erase_at xmini aSegList)" "holeIters st1 = 0"
    by auto
  show ?thesis
  proof (cases e)
    case Return_false
    with x fc c len show ?thesis by (auto simp: build_contours_def)
  next
    case Loop_break
    from sh have "map length (aPolygons st1) = [nat (- 1 + 2)]" by simp
    from hole_loop_defined [OF assms(1) this, of g l] obtain b st2 where
      hl: "hole_loop g aTolerance (- 1) l st1 = Some (b, st2)" by auto
    from hole_loop_counts [OF hl] c len
    have "walkIters st2 \<le> length aSegList \<and> holeIters st2 \<le> length aSegList - 1" by arith
    with Loop_break x fc hl show ?thesis by (auto simp: build_contours_def)
  qed
qed

lemma ConvertOutlineToPolygon_defined:
  assumes "aTolerance < INT_MAX"
  shows "\<exists>ret st. ConvertOutlineToPolygon g aSegList [] aTolerance = Some (ret, st)
     \<and> walkIters st \<le> length aSegList \<and> holeIters st \<le> length aSegList - 1"
proof (cases "aSegList = []")
  case True
  then show ?thesis by (auto simp: ConvertOutlineToPolygon_def initial_state_def)
next
  case False
  from build_contours_defined [OF assms False, of g] obtain b st where
    "build_contours g aSegList [] aTolerance = Some (b, st)"
    "walkIters st \<le> length aSegList" "holeIters st \<le> length aSegList - 1"
    by auto
  with False show ?thesis
    by (cases b) (auto simp: ConvertOutlineToPolygon_def split: option.splits)
qed


section \<open>Termination\<close>

definition two_segments :: "DRAWSEGMENT list" where
  "two_segments = [segment (0, 0) (10, 0), segment (20, 0) (30, 0)]"

text \<open>The number of iterations of all loops of a run, counted together.\<close>

definition loop_iterations :: "(bool \<times> CONV_STATE) option \<Rightarrow> nat option" where
  "loop_iterations r = map_option (\<lambda>(ret, st). walkIters st + holeIters st) r"

text \<open>
  Claim C8, as stated, fails in its bound. For two segments that do not touch, at tolerance
  0, the walk of the outline runs one iteration, the loop over the holes runs one
  iteration, and the walk of the hole runs one iteration: three loop iterations for a pool
  of two primitives. The iteration in which a walk ends removes no primitive.
\<close>

theorem C8_counterexample:
  "loop_iterations (ConvertOutlineToPolygon segment_geometry two_segments [] 0) = Some 3
   \<and> length two_segments = 2
   \<and> \<not> (3 :: nat) \<le> 2"
  by (simp add: two_segments_def run_two_segments loop_iterations_def)

text \<open>
  Claim C8, amended. For every input list, with the output set empty on entry and a
  tolerance below the initial value \<open>INT_MAX\<close> of \<open>min_d\<close>, \<open>ConvertOutlineToPolygon\<close> returns.
  A call of \<open>findPoint\<close> that finds a primitive removes exactly this one element from the
  pool, and a call that finds none leaves the pool as it is and ends the walk. For an input
  of \<open>n\<close> primitives the \<open>for (;;)\<close> loops run, all walks together, at most \<open>n\<close> iterations,
  the \<open>while\<close> loop over the holes at most \<open>n - 1\<close>, and all loops together at most
  \<open>2 * n - 1\<close>.
\<close>

theorem C8_terminates_within_pool_size:
  assumes "aTolerance < INT_MAX"
  shows "(\<exists>ret st. ConvertOutlineToPolygon g aSegList [] aTolerance = Some (ret, st)
            \<and> walkIters st \<le> length aSegList \<and> holeIters st \<le> length aSegList - 1
            \<and> walkIters st + holeIters st \<le> 2 * length aSegList - 1)
       \<and> (\<forall>aPoint aList graphic aList'.
            findPoint aPoint aList aTolerance = Some (Some graphic, aList')
            \<longrightarrow> Suc (length aList') = length aList)
       \<and> (\<forall>aPoint aList aList'.
            findPoint aPoint aList aTolerance = Some (None, aList') \<longrightarrow> aList' = aList)"
proof -
  from ConvertOutlineToPolygon_defined [OF assms, of g aSegList] obtain ret st where
    r: "ConvertOutlineToPolygon g aSegList [] aTolerance = Some (ret, st)"
    "walkIters st \<le> length aSegList" "holeIters st \<le> length aSegList - 1"
    by auto
  from r(2,3) have "walkIters st + holeIters st \<le> 2 * length aSegList - 1" by arith
  with r show ?thesis
    by (auto dest: findPoint_removes_one findPoint_NULL_unchanged)
qed

theorem C8_witness:
  "(0 :: nat) < INT_MAX
   \<and> (\<exists>ret st. ConvertOutlineToPolygon segment_geometry three_triangles [] 0 = Some (ret, st)
         \<and> walkIters st \<le> length three_triangles \<and> holeIters st \<le> length three_triangles - 1
         \<and> walkIters st + holeIters st \<le> 2 * length three_triangles - 1)
   \<and> map_option (walkIters \<circ> snd) (ConvertOutlineToPolygon segment_geometry three_triangles [] 0)
       = Some 9
   \<and> map_option (holeIters \<circ> snd) (ConvertOutlineToPolygon segment_geometry three_triangles [] 0)
       = Some 2
   \<and> length three_triangles = 9"
proof -
  have small: "(0 :: nat) < INT_MAX" by (simp add: INT_MAX_def)
  have len: "length three_triangles = 9" by (simp add: three_triangles_def)
  from C8_terminates_within_pool_size [OF small, of segment_geometry three_triangles] small len
  show ?thesis by (simp add: run_three_triangles_0)
qed


section \<open>The outline of a board\<close>

text \<open>
  For every board, with the output set empty on entry and a tolerance below \<open>INT_MAX\<close>,
  \<open>BuildBoardPolygonOutlines\<close> returns and leaves a polygon set that is not empty. Whenever
  it returns false (no edge items, or the conversion failed), and also when the conversion
  succeeded without an outline, the output is a single outline with the four corners of the
  fallback rectangle and no hole; otherwise the output is that of the conversion. The
  rectangle is the bounding box of the board edges, the computed bounding box of the board
  when that one has no width or no height, inflated when this one has no width or no
  height either.
\<close>

lemma board_outline_never_empty:
  assumes "aTolerance < INT_MAX"
  shows "\<exists>success st. BuildBoardPolygonOutlines g aBoard [] aTolerance = Some (success, st)
     \<and> aPolygons st \<noteq> []
     \<and> (\<not> success \<longrightarrow>
          aPolygons st = [[\<lparr>CPoints = bbox_corners (fallback_bbox g aBoard), IsClosed = True\<rparr>]])
     \<and> (success \<longrightarrow>
          (\<exists>st0. ConvertOutlineToPolygon g (edge_items aBoard) [] aTolerance = Some (True, st0)
             \<and> (if OutlineCount (aPolygons st0) = 0
                 then aPolygons st =
                        [[\<lparr>CPoints = bbox_corners (fallback_bbox g aBoard), IsClosed = True\<rparr>]]
                 else st = st0)))
     \<and> length (bbox_corners (fallback_bbox g aBoard)) = 4
     \<and> fallback_bbox g aBoard =
         (if GetWidth (GetBoardEdgesBoundingBox aBoard) = 0
             \<or> GetHeight (GetBoardEdgesBoundingBox aBoard) = 0
          then (if GetWidth (ComputeBoundingBox aBoard) = 0
                   \<or> GetHeight (ComputeBoundingBox aBoard) = 0
                then Inflate g (ComputeBoundingBox aBoard) (Millimeter2iu g)
                else ComputeBoundingBox aBoard)
          else GetBoardEdgesBoundingBox aBoard)"
proof -
  have rect: "Append_all (bbox_corners (fallback_bbox g aBoard)) (- 1) (NewOutline []) =
      Some [[\<lparr>CPoints = bbox_corners (fallback_bbox g aBoard), IsClosed = True\<rparr>]]"
    using Append_all_NewOutline [of "bbox_corners (fallback_bbox g aBoard)" "[]"] by simp
  have bbox: "fallback_bbox g aBoard =
         (if GetWidth (GetBoardEdgesBoundingBox aBoard) = 0
             \<or> GetHeight (GetBoardEdgesBoundingBox aBoard) = 0
          then (if GetWidth (ComputeBoundingBox aBoard) = 0
                   \<or> GetHeight (ComputeBoundingBox aBoard) = 0
                then Inflate g (ComputeBoundingBox aBoard) (Millimeter2iu g)
                else ComputeBoundingBox aBoard)
          else GetBoardEdgesBoundingBox aBoard)"
    by (simp add: fallback_bbox_def Let_def)
  have four: "length (bbox_corners (fallback_bbox g aBoard)) = 4"
    by (simp add: bbox_corners_def)
  let ?rect = "[[\<lparr>CPoints = bbox_corners (fallback_bbox g aBoard), IsClosed = True\<rparr>]]"
  have main: "\<exists>success st. BuildBoardPolygonOutlines g aBoard [] aTolerance = Some (success, st)
     \<and> aPolygons st \<noteq> []
     \<and> (\<not> success \<longrightarrow> aPolygons st = ?rect)
     \<and> (success \<longrightarrow>
          (\<exists>st0. ConvertOutlineToPolygon g (edge_items aBoard) [] aTolerance = Some (True, st0)
             \<and> (if OutlineCount (aPolygons st0) = 0 then aPolygons st = ?rect else st = st0)))"
  proof (cases "edge_items aBoard = []")
    case True
    then have "BuildBoardPolygonOutlines g aBoard [] aTolerance =
        Some (False, (initial_state [])\<lparr>aErrorText := [No_edges_found], aPolygons := ?rect\<rparr>)"
      by (simp add: BuildBoardPolygonOutlines_def edge_items_def rect)
    then show ?thesis by auto
  next
    case False
    from ConvertOutlineToPolygon_defined [OF assms, of g "edge_items aBoard"] obtain ret st0 where
      conv: "ConvertOutlineToPolygon g (edge_items aBoard) [] aTolerance = Some (ret, st0)"
      by auto
    show ?thesis
    proof (cases "\<not> ret \<or> OutlineCount (aPolygons st0) = 0")
      case True
      with False conv have "BuildBoardPolygonOutlines g aBoard [] aTolerance =
        Some (ret, st0\<lparr>aPolygons := ?rect\<rparr>)"
        by (auto simp: BuildBoardPolygonOutlines_def edge_items_def rect)
      with True conv show ?thesis by auto
    next
      case False2: False
      with False conv have "BuildBoardPolygonOutlines g aBoard [] aTolerance = Some (ret, st0)"
        by (auto simp: BuildBoardPolygonOutlines_def edge_items_def)
      with False2 conv show ?thesis by (auto simp: OutlineCount_def)
    qed
  qed
  then obtain success st where r:
    "BuildBoardPolygonOutlines g aBoard [] aTolerance = Some (success, st)"
    "aPolygons st \<noteq> []"
    "\<not> success \<longrightarrow> aPolygons st = ?rect"
    "success \<longrightarrow>
          (\<exists>st0. ConvertOutlineToPolygon g (edge_items aBoard) [] aTolerance = Some (True, st0)
             \<and> (if OutlineCount (aPolygons st0) = 0 then aPolygons st = ?rect else st = st0))"
    by (elim exE conjE)
  show ?thesis
    by (intro exI [of _ success] exI [of _ st] conjI) (fact r four bbox)+
qed

text \<open>
  A board with one segment on the edge layer and one on another layer. The bounding box of
  its edges has no height; the bounding box of the whole board is 20 wide and 10 high.
\<close>

definition example_board :: BOARD where
  "example_board =
     \<lparr>CollectedItems = [segment (0, 0) (10, 0), (segment (0, 0) (0, 7))\<lparr>GetLayer := Other_Layer 0\<rparr>],
      GetBoardEdgesBoundingBox = \<lparr>GetOrigin = (0, 0), GetSize = (10, 0)\<rparr>,
      ComputeBoundingBox = \<lparr>GetOrigin = (- 5, - 5), GetSize = (20, 10)\<rparr>\<rparr>"

lemma run_example_board:
  "BuildBoardPolygonOutlines segment_geometry example_board [] 0 =
     Some (False,
           \<lparr>aPolygons = [[\<lparr>CPoints = [(- 5, - 5), (- 5, 5), (15, 5), (15, - 5)], IsClosed = True\<rparr>]],
            aErrorLocation = Some (10, 0), aErrorText = [Unable_to_find_edge (0, 0)],
            polygonComplete = False, walkIters = 1, holeIters = 0\<rparr>)"
proof -
  have items: "edge_items example_board = [segment (0, 0) (10, 0)]"
    by (simp add: edge_items_def example_board_def segment_def)
  have bbox: "bbox_corners (fallback_bbox segment_geometry example_board) =
      [(- 5, - 5), (- 5, 5), (15, 5), (15, - 5)]"
    by (simp add: bbox_corners_def fallback_bbox_def example_board_def GetWidth_def GetHeight_def
        GetRectEnd_def)
  show ?thesis
    by (simp add: BuildBoardPolygonOutlines_def items run_single_segment bbox
        Append_all_NewOutline [of _ "[]", simplified])
qed

text \<open>
  A board with two separate segments on the edge layer, and an output set that holds a
  triangle on entry.
\<close>

definition two_segment_board :: BOARD where
  "two_segment_board =
     \<lparr>CollectedItems = two_segments,
      GetBoardEdgesBoundingBox = \<lparr>GetOrigin = (0, 0), GetSize = (30, 0)\<rparr>,
      ComputeBoundingBox = \<lparr>GetOrigin = (0, - 5), GetSize = (30, 10)\<rparr>\<rparr>"

definition triangle_outline :: SHAPE_POLY_SET where
  "triangle_outline = [[\<lparr>CPoints = [(0, 0), (5, 0), (5, 5)], IsClosed = True\<rparr>]]"

lemma run_single_segment_INT_MAX:
  "ConvertOutlineToPolygon segment_geometry [segment (0, 0) (10, 0)] [] 2147483647 = None"
  "ConvertOutlineToPolygon segment_geometry [segment (0, 0) (10, 0)] [] 2147483646 =
     Some (False,
           \<lparr>aPolygons = [[\<lparr>CPoints = [(10, 0), (0, 0)], IsClosed = True\<rparr>]],
            aErrorLocation = Some (10, 0), aErrorText = [],
            polygonComplete = True, walkIters = 1, holeIters = 0\<rparr>)"
  by (simp_all add: run_defs)

lemma run_two_segments_nonempty:
  "ConvertOutlineToPolygon segment_geometry two_segments triangle_outline 0 = None"
  by (simp add: run_defs two_segments_def triangle_outline_def)

text \<open>
  Claim C6 asks for a polygon set that is not empty after every call. The function is
  written to that end: whenever the conversion fails it builds the rectangle. But the
  conversion does not always come back. With the tolerance \<open>INT_MAX\<close> the walk of the single
  edge segment of \<open>example_board\<close> calls \<open>findPoint\<close> on the pool it has emptied, which reads
  \<open>aList[0]\<close> of an empty vector; one unit below, the call returns false with the
  rectangle. With an output set that is not empty on entry, the second segment of
  \<open>two_segment_board\<close> becomes a hole of the polygon that the conversion added last, which
  does not close, and \<open>aPolygons.Hole (0, holeNum)\<close> addresses the polygon 0, which has no
  hole; with an empty output set on entry the call returns false with the rectangle.
\<close>

theorem C6_board_outline_not_built:
  "BuildBoardPolygonOutlines segment_geometry example_board [] 2147483647 = None
   \<and> map_option (\<lambda>(success, st). (success, aPolygons st))
        (BuildBoardPolygonOutlines segment_geometry example_board [] 2147483646) =
       Some (False, [[\<lparr>CPoints = [(- 5, - 5), (- 5, 5), (15, 5), (15, - 5)], IsClosed = True\<rparr>]])
   \<and> BuildBoardPolygonOutlines segment_geometry two_segment_board triangle_outline 0 = None
   \<and> map_option (\<lambda>(success, st). (success, aPolygons st))
        (BuildBoardPolygonOutlines segment_geometry two_segment_board [] 0) =
       Some (False, [[\<lparr>CPoints = [(0, - 5), (0, 5), (30, 5), (30, - 5)], IsClosed = True\<rparr>]])"
proof -
  have items: "edge_items example_board = [segment (0, 0) (10, 0)]"
    "edge_items two_segment_board = two_segments"
    by (simp_all add: edge_items_def example_board_def two_segment_board_def two_segments_def
        segment_def)
  have bbox: "bbox_corners (fallback_bbox segment_geometry example_board) =
      [(- 5, - 5), (- 5, 5), (15, 5), (15, - 5)]"
    "bbox_corners (fallback_bbox segment_geometry two_segment_board) =
      [(0, - 5), (0, 5), (30, 5), (30, - 5)]"
    by (simp_all add: bbox_corners_def fallback_bbox_def example_board_def two_segment_board_def
        GetWidth_def GetHeight_def GetRectEnd_def)
  have ne: "two_segments \<noteq> []" by (simp add: two_segments_def)
  have run2: "ConvertOutlineToPolygon segment_geometry two_segments [] 0 =
     Some (False,
           \<lparr>aPolygons = [[\<lparr>CPoints = [(10, 0), (0, 0)], IsClosed = True\<rparr>,
                          \<lparr>CPoints = [(30, 0), (20, 0)], IsClosed = False\<rparr>]],
            aErrorLocation = Some (10, 0),
            aErrorText = [Unable_to_find_edge (0, 0), Unable_to_find_edge (20, 0)],
            polygonComplete = False, walkIters = 2, holeIters = 1\<rparr>)"
    unfolding two_segments_def by (rule run_two_segments)
  show ?thesis
    by (simp add: BuildBoardPolygonOutlines_def items bbox ne run_single_segment_INT_MAX
        run_two_segments_nonempty run2 Append_all_NewOutline [of _ "[]", simplified])
qed

text \<open>The returned values of the four calls: two calls return nothing.\<close>

theorem C6_witness:
  "returned (BuildBoardPolygonOutlines segment_geometry example_board [] 2147483647) = None
   \<and> returned (BuildBoardPolygonOutlines segment_geometry example_board [] 2147483646) = Some False
   \<and> returned (BuildBoardPolygonOutlines segment_geometry two_segment_board triangle_outline 0) = None
   \<and> returned (BuildBoardPolygonOutlines segment_geometry two_segment_board [] 0) = Some False"
  using C6_board_outline_not_built
  by (auto simp: returned_def)


section \<open>Tolerance monotonicity of a single contour\<close>












section \<open>Tolerance monotonicity of isolated end points\<close>





















section \<open>Chains that do not close\<close>

text \<open>
  What holds of a chain that does not close. The last iteration of its walk leaves the loop
  by \<open>break\<close> with the points appended, the error location at the point where the search
  failed and \<open>polygonComplete\<close> cleared (\<open>walk_unclosed_outline\<close>, \<open>walk_unclosed_hole\<close>); no
  later step sets \<open>polygonComplete\<close> again, so that the function returns false.
\<close>

lemma walk_keeps_incomplete:
  "walk g aTolerance target startPt graphic prevPt segList st = Some (e, l, st') \<Longrightarrow>
   \<not> polygonComplete st \<Longrightarrow> \<not> polygonComplete st'"
proof (induction graphic prevPt segList st
    rule: walk_induct [where g = g and aTolerance = aTolerance and target = target])
  case (step graphic prevPt segList st)
  from step.prems(1) show ?case
  proof (cases rule: walk_cases)
    case unsupported
    with step.prems show ?thesis by (auto simp: walk_unsupported)
  next
    case (found pts nextPt ps graphic' l')
    from step.IH [OF found] step.prems(2) show ?thesis by simp
  next
    case (exhausted pts nextPt ps)
    with step.prems show ?thesis
      by (auto simp: walk.simps [of g aTolerance target startPt graphic prevPt segList st] Let_def
          split: if_splits option.splits)
  qed
qed

lemma hole_loop_keeps_incomplete:
  "hole_loop g aTolerance holeNum segList st = Some (b, st') \<Longrightarrow>
   \<not> polygonComplete st \<Longrightarrow> \<not> polygonComplete st'"
proof (induction "length segList" arbitrary: segList holeNum st rule: less_induct)
  case less
  show ?case
  proof (cases segList)
    case Nil
    with less.prems show ?thesis by (simp add: hole_loop.simps)
  next
    case (Cons graphic rest)
    from less.prems Cons obtain hole ps0 where
      nh: "NewHole (aPolygons st) = Some (hole, ps0)"
      by (auto simp: hole_loop.simps [of g aTolerance holeNum "graphic # rest" st]
          split: option.splits)
    define holeNum' where "holeNum' = holeNum + 1"
    show ?thesis
    proof (cases "GetShape graphic = S_POLYGON \<or> GetShape graphic = S_CIRCLE
        \<or> GetShape graphic = S_RECT")
      case True
      from hole_loop_closed_shape [OF nh True, of g aTolerance holeNum rest]
      obtain pts where eq: "hole_loop g aTolerance holeNum (graphic # rest) st =
         (case Append_all pts hole ps0 of
            None \<Rightarrow> None
          | Some ps \<Rightarrow> hole_loop g aTolerance holeNum' rest
              (st\<lparr>aPolygons := ps0, holeIters := Suc (holeIters st), aPolygons := ps\<rparr>))"
        unfolding holeNum'_def by auto
      with less.prems Cons obtain ps where
        rec: "hole_loop g aTolerance holeNum' rest
              (st\<lparr>aPolygons := ps0, holeIters := Suc (holeIters st), aPolygons := ps\<rparr>) =
            Some (b, st')"
        by (auto split: option.splits)
      from less.hyps [OF _ rec] Cons less.prems(2) show ?thesis by simp
    next
      case False
      note eq = hole_loop_open_shape [OF nh False, of g aTolerance holeNum rest,
          folded holeNum'_def]
      with less.prems Cons obtain ps e l st1 where
        ps: "Append (GetEnd graphic) hole ps0 = Some ps"
        and w: "walk g aTolerance (Some (hole, holeNum')) (GetEnd graphic) graphic
                (GetEnd graphic) rest
                (st\<lparr>aPolygons := ps0, holeIters := Suc (holeIters st), aPolygons := ps\<rparr>) =
              Some (e, l, st1)"
        by (auto split: option.splits)
      from walk_keeps_incomplete [OF w] less.prems(2) have inc: "\<not> polygonComplete st1" by simp
      from walk_length [OF w] Cons have len: "length l < length segList" by simp
      show ?thesis
      proof (cases e)
        case Return_false
        with less.prems Cons eq ps w have "st' = st1" by simp
        with inc show ?thesis by simp
      next
        case Loop_break
        with less.prems Cons eq ps w
        have rec: "hole_loop g aTolerance holeNum' l st1 = Some (b, st')" by simp
        from less.hyps [OF len rec inc] show ?thesis .
      qed
    qed
  qed
qed

lemma unclosed_outline_returns_false:
  assumes "aSegList \<noteq> []"
    and "first_contour g aTolerance (aSegList ! snd (find_xmin g aTolerance aSegList))
           (erase_at (snd (find_xmin g aTolerance aSegList)) aSegList) (initial_state ps) =
         Some (e, l, st1)"
    and "\<not> polygonComplete st1"
    and "ConvertOutlineToPolygon g aSegList ps aTolerance = Some (ret, st)"
  shows "\<not> ret"
proof -
  from assms(1,4) obtain b st0 where
    bc: "build_contours g aSegList ps aTolerance = Some (b, st0)"
    by (auto simp: ConvertOutlineToPolygon_def split: option.splits)
  have "b \<longrightarrow> \<not> polygonComplete st0"
  proof (cases e)
    case Return_false
    with bc assms(2) show ?thesis
      by (auto simp: build_contours_def Let_def case_prod_beta)
  next
    case Loop_break
    with bc assms(2) have "hole_loop g aTolerance (- 1) l st1 = Some (b, st0)"
      by (auto simp: build_contours_def Let_def case_prod_beta)
    from hole_loop_keeps_incomplete [OF this assms(3)] show ?thesis by simp
  qed
  with bc assms(1,4) show ?thesis
    by (cases b) (auto simp: ConvertOutlineToPolygon_def split: option.splits)
qed

end
